theory Spec2Isabelle
  imports Complex_Main "HOL-Library.Word"
begin

section \<open>Shared types (types.ts)\<close>

text \<open>
  The TypeScript \<^verbatim>\<open>number\<close> fields are modelled by the values they take in the
  application: \<open>stage\<close>, \<open>timer\<close>, \<open>answer\<close> and database scores are integers (far
  below \<open>2^53\<close>, where arithmetic on doubles that hold integers is exact), and a value of
  \<^verbatim>\<open>Math.random()\<close> is a double, with the rounding of its product written out (see
  the question generator). Times in seconds are reals: \<^verbatim>\<open>Date.now()\<close> is an integer
  count of milliseconds, divided by 1000, and the rounding of that quotient, of the sum of
  times and of the score to the nearest double is not modelled.

  \<^verbatim>\<open>Operation\<close> is the union of the string literals \<^verbatim>\<open>'addition' | 'subtraction' |
  'multiplication'\<close>; at run time it is a string, and \<^verbatim>\<open>generateQuestion\<close> has a
  \<^verbatim>\<open>default\<close> branch for every other string, so the model keeps the string.
\<close>

text \<open>
  The ids of users are values of \<^verbatim>\<open>uuid\<close> columns of the store (\<^verbatim>\<open>profiles.id\<close>,
  \<^verbatim>\<open>progress.user_id\<close>) and of its authentication service. The program holds the
  canonical text of such a value; two texts are equal exactly when the 128-bit values are,
  and the model holds the value.
\<close>

type_synonym Uuid = "128 word"

datatype Role = Admin | Teacher | Student | Parent

type_synonym Operation = string

datatype View = LoginView | SignUpView | DashboardView | SelectQuizView | QuizView | ResultsView

record User =
  id_user :: Uuid
  updated_at :: "string option"
  name :: string
  email :: string
  role :: Role
  childId :: "string option"

record QuizSettings =
  operation :: Operation
  stage :: int
  timer :: int

record Question =
  "text" :: string
  answer :: int

text \<open>
  \<^verbatim>\<open>parseInt\<close> yields a number or \<^verbatim>\<open>NaN\<close>, and an empty answer is recorded as
  \<^verbatim>\<open>null\<close>: the three cases of \<^verbatim>\<open>userAnswer\<close> at run time.
\<close>

datatype AnswerValue = Null | NaN | Num int

record QuizResult =
  question :: Question
  userAnswer :: AnswerValue
  isCorrect :: bool
  timeTaken :: real

record QuizSummary =
  settings :: QuizSettings
  results :: "QuizResult list"
  score :: real
  totalTime :: real

record UserData =
  ud_name :: string
  ud_email :: string
  ud_password :: "string option"
  ud_role :: Role
  ud_childId :: "string option"


section \<open>Numbers in template literals\<close>

text \<open>
  A template literal \<^verbatim>\<open>${n}\<close> prints an integer \<open>n\<close> in decimal, with a leading
  minus sign when it is negative.
\<close>

definition digit_char :: "nat \<Rightarrow> char" where
  "digit_char d = ''0123456789'' ! d"

fun string_of_nat :: "nat \<Rightarrow> string" where
  "string_of_nat n =
     (if n < 10 then [digit_char n]
      else string_of_nat (n div 10) @ [digit_char (n mod 10)])"

declare string_of_nat.simps [simp del]

definition numberToString :: "int \<Rightarrow> string" where
  "numberToString i =
     (if i < 0 then CHR ''-'' # string_of_nat (nat (- i)) else string_of_nat (nat i))"


section \<open>Doubles\<close>

text \<open>
  A finite double that is not negative is \<open>mantissa * 2 ^ exponent\<close> for a mantissa below
  \<open>2^53\<close> and an exponent from \<open>-1074\<close> to \<open>971\<close>; the pair need not be normalised.
\<close>

record Float64 =
  mantissa :: nat
  exponent :: int

definition isFloat64 :: "Float64 \<Rightarrow> bool" where
  "isFloat64 x \<longleftrightarrow> mantissa x < 2 ^ 53 \<and> - 1074 \<le> exponent x \<and> exponent x \<le> 971"

definition valueOf :: "Float64 \<Rightarrow> real" where
  "valueOf x =
     (if 0 \<le> exponent x then real (mantissa x) * 2 ^ nat (exponent x)
      else real (mantissa x) / 2 ^ nat (- exponent x))"

text \<open>A value that \<^verbatim>\<open>Math.random()\<close> may return: a double in \<open>[0, 1)\<close>.\<close>

definition isRandom :: "Float64 \<Rightarrow> bool" where
  "isRandom x \<longleftrightarrow> isFloat64 x \<and> valueOf x < 1"

text \<open>The number of binary digits of a natural number.\<close>

fun bitLength :: "nat \<Rightarrow> nat" where
  "bitLength n = (if n = 0 then 0 else Suc (bitLength (n div 2)))"

declare bitLength.simps [simp del]

text \<open>
  The integer nearest to \<open>m / 2 ^ k\<close>; of two nearest integers, the even one
  (the rounding mode of the arithmetic on doubles).
\<close>

definition roundHalfEven :: "nat \<Rightarrow> nat \<Rightarrow> nat" where
  "roundHalfEven m k =
     (let q = m div 2 ^ k; r = m mod 2 ^ k
      in if 2 * r < 2 ^ k then q
         else if 2 ^ k < 2 * r then q + 1
         else if even q then q else q + 1)"

text \<open>
  The double nearest to the exact value \<open>m * 2 ^ e\<close>, for \<open>e \<ge> -1074\<close>: the value itself
  when \<open>m\<close> has at most 53 binary digits, and otherwise \<open>m\<close> rounded to its 53 leading
  digits. A rounded mantissa of \<open>2^53\<close> stands for the double \<open>2^52 * 2 ^ (exponent + 1)\<close>.
  Overflow does not arise for a product below \<open>2^53\<close>.
\<close>

definition roundToFloat64 :: "nat \<Rightarrow> int \<Rightarrow> Float64" where
  "roundToFloat64 m e =
     (if bitLength m \<le> 53 then \<lparr>mantissa = m, exponent = e\<rparr>
      else \<lparr>mantissa = roundHalfEven m (bitLength m - 53),
            exponent = e + int (bitLength m - 53)\<rparr>)"

text \<open>\<^verbatim>\<open>Math.floor\<close> of a double that is not negative, and the ceiling, as integers.\<close>

definition floorFloat64 :: "Float64 \<Rightarrow> int" where
  "floorFloat64 x =
     (if 0 \<le> exponent x then int (mantissa x * 2 ^ nat (exponent x))
      else int (mantissa x div 2 ^ nat (- exponent x)))"

definition ceilingFloat64 :: "Float64 \<Rightarrow> int" where
  "ceilingFloat64 x =
     (if 0 \<le> exponent x then int (mantissa x * 2 ^ nat (exponent x))
      else int ((mantissa x + 2 ^ nat (- exponent x) - 1) div 2 ^ nat (- exponent x)))"


section \<open>Question generator (services/quizService.ts)\<close>

text \<open>
  \<^verbatim>\<open>Math.floor(Math.random() * (max - min + 1)) + min\<close>. The value of
  \<^verbatim>\<open>Math.random()\<close> is the argument \<open>rnd\<close>. The product of the double \<open>rnd\<close> and the
  integer \<open>max - min + 1\<close> is the exact product rounded to the nearest double; when the
  integer is negative the product is the negation of the rounded product with its absolute
  value, and the floor of a negated value is the negated ceiling. The difference, the
  floor and the sum with \<open>min\<close> are exact on the integers of the source's calls.
\<close>

definition getRandomInt :: "int \<Rightarrow> int \<Rightarrow> Float64 \<Rightarrow> int" where
  "getRandomInt mn mx rnd =
     (let n = mx - mn + 1
      in if 0 \<le> n then
           floorFloat64 (roundToFloat64 (mantissa rnd * nat n) (exponent rnd)) + mn
         else
           - ceilingFloat64 (roundToFloat64 (mantissa rnd * nat (- n)) (exponent rnd)) + mn)"

text \<open>
  The multiplication sign of the source's template literal, as the bytes of the file.
\<close>

definition times_symbol :: string where
  "times_symbol = [char_of (0xC3 :: nat), char_of (0x83 :: nat), char_of (0xE2 :: nat),
                   char_of (0x80 :: nat), char_of (0x94 :: nat)]"

text \<open>
  \<open>generateQuestion\<close> draws \<open>num1\<close> first and \<open>num2\<close> second; \<open>rnd1\<close> and \<open>rnd2\<close> are
  the two values of \<^verbatim>\<open>Math.random()\<close> in that order. It has no other effect.
\<close>

definition generateQuestion :: "Operation \<Rightarrow> int \<Rightarrow> Float64 \<Rightarrow> Float64 \<Rightarrow> Question" where
  "generateQuestion opn stg rnd1 rnd2 =
     (if opn = ''addition'' then
        (let (num1, num2) =
           (if stg = 1 then
              (let num1 = getRandomInt 0 5 rnd1; num2 = getRandomInt 0 5 rnd2 in (num1, num2))
            else if stg = 2 then
              (let num1 = getRandomInt 0 10 rnd1; num2 = getRandomInt 0 10 rnd2 in (num1, num2))
            else
              (let num1 = getRandomInt 0 20 rnd1; num2 = getRandomInt 0 20 rnd2 in (num1, num2)))
         in \<lparr>text = numberToString num1 @ '' + '' @ numberToString num2 @ '' = ?'',
             answer = num1 + num2\<rparr>)
      else if opn = ''subtraction'' then
        (let (num1, num2) =
           (if stg = 1 then
              (let num1 = getRandomInt 1 10 rnd1; num2 = getRandomInt 0 num1 rnd2 in (num1, num2))
            else
              (let num1 = getRandomInt 1 20 rnd1; num2 = getRandomInt 0 num1 rnd2 in (num1, num2)))
         in \<lparr>text = numberToString num1 @ '' - '' @ numberToString num2 @ '' = ?'',
             answer = num1 - num2\<rparr>)
      else if opn = ''multiplication'' then
        (let (num1, num2) =
           (if stg = 1 then
              (let num1 = getRandomInt 1 5 rnd1; num2 = getRandomInt 1 5 rnd2 in (num1, num2))
            else if stg = 2 then
              (let num1 = getRandomInt 6 10 rnd1; num2 = getRandomInt 1 10 rnd2 in (num1, num2))
            else
              (let num1 = getRandomInt 1 10 rnd1; num2 = getRandomInt 1 10 rnd2 in (num1, num2)))
         in \<lparr>text = numberToString num1 @ '' '' @ times_symbol @ '' '' @ numberToString num2 @ '' = ?'',
             answer = num1 * num2\<rparr>)
      else \<lparr>text = ''1 + 1 = ?'', answer = 2\<rparr>)"

section \<open>Progress normalizer (fetchAllProgressData in context/AppContext.tsx)\<close>

text \<open>
  A row of the \<^verbatim>\<open>progress\<close> table as \<^verbatim>\<open>select('*')\<close> returns it. The loop reads
  \<^verbatim>\<open>user_id\<close>, \<^verbatim>\<open>operation\<close>, \<^verbatim>\<open>stage\<close> and \<^verbatim>\<open>score\<close>. The column
  \<^verbatim>\<open>user_id\<close> is a \<^verbatim>\<open>uuid\<close>: its canonical text is never the name of a member
  that objects inherit, and the model keys the index by the value. The column \<^verbatim>\<open>operation\<close>
  is \<^verbatim>\<open>text\<close> with no check: the row type of the client declares the three operation
  names, the store admits any string, and the model keeps the string. \<^verbatim>\<open>stage\<close> and
  \<^verbatim>\<open>score\<close> are integer columns.
\<close>

record AttemptRow =
  row_user_id :: Uuid
  row_operation :: string
  row_stage :: int
  row_score :: int
  row_total_time :: real

type_synonym Progress = "string \<rightharpoonup> int"
type_synonym StudentProgress = "string \<rightharpoonup> Progress"
type_synonym ProgressData = "Uuid \<rightharpoonup> StudentProgress"

text \<open>The key \<^verbatim>\<open>`stage${stage}`\<close>.\<close>

definition stageKey :: "int \<Rightarrow> string" where
  "stageKey stg = ''stage'' @ numberToString stg"

text \<open>
  The objects the loop creates with \<^verbatim>\<open>{}\<close> inherit from \<^verbatim>\<open>Object.prototype\<close>, so
  \<^verbatim>\<open>studentProgress[operation]\<close> finds, when \<open>studentProgress\<close> has no own property of
  that name, the member of \<^verbatim>\<open>Object.prototype\<close> of that name. The loop can write to
  these shared objects, and what it writes stays for later calls. \<open>prototypeProps\<close> holds
  the data properties written to \<^verbatim>\<open>Object.prototype\<close>, and \<open>functionProps f\<close> those
  written to the built-in function that is the member \<open>f\<close> of \<^verbatim>\<open>Object.prototype\<close>.
\<close>

record SharedObjects =
  prototypeProps :: "string \<rightharpoonup> int"
  functionProps :: "string \<Rightarrow> string \<rightharpoonup> int"

definition initialSharedObjects :: SharedObjects where
  "initialSharedObjects = \<lparr>prototypeProps = Map.empty, functionProps = (\<lambda>f. Map.empty)\<rparr>"

text \<open>The members of \<^verbatim>\<open>Object.prototype\<close> that are functions.\<close>

definition builtinFunctionNames :: "string list" where
  "builtinFunctionNames =
     [''constructor'', ''__defineGetter__'', ''__defineSetter__'', ''hasOwnProperty'',
      ''__lookupGetter__'', ''__lookupSetter__'', ''isPrototypeOf'', ''propertyIsEnumerable'',
      ''toString'', ''valueOf'', ''toLocaleString'']"

text \<open>
  The value of \<^verbatim>\<open>studentProgress[key]\<close>: an own property (always an object the loop
  created), or else what \<^verbatim>\<open>Object.prototype\<close> gives: itself for \<^verbatim>\<open>__proto__\<close> (an
  accessor), a number written there earlier, one of its functions, or nothing.
\<close>

datatype Member =
    Undefined
  | OwnObject Progress
  | ObjectPrototype
  | Primitive int
  | BuiltinFunction string

definition getMember :: "SharedObjects \<Rightarrow> StudentProgress \<Rightarrow> string \<Rightarrow> Member" where
  "getMember shared studentProgress key =
     (case studentProgress key of
        Some p \<Rightarrow> OwnObject p
      | None \<Rightarrow>
          if key = ''__proto__'' then ObjectPrototype
          else
            (case prototypeProps shared key of
               Some n \<Rightarrow> Primitive n
             | None \<Rightarrow> if key \<in> set builtinFunctionNames then BuiltinFunction key else Undefined))"

text \<open>A key under which a fresh object finds an inherited member.\<close>

definition inheritedKey :: "SharedObjects \<Rightarrow> string \<Rightarrow> bool" where
  "inheritedKey shared key \<longleftrightarrow>
     key = ''__proto__'' \<or> key \<in> set builtinFunctionNames \<or> prototypeProps shared key \<noteq> None"

text \<open>
  One iteration of \<^verbatim>\<open>for (const record of data)\<close>. The student's object is created
  when \<^verbatim>\<open>transformedData[studentId]\<close> is absent. The operation's object is created when
  \<^verbatim>\<open>studentProgress[operation]\<close> is falsy: absent, or an inherited number 0. Then the
  score is assigned to \<^verbatim>\<open>studentProgress[operation][key]\<close>: to the own object, to the
  built-in function or to \<^verbatim>\<open>Object.prototype\<close> when that is what the lookup finds, and to
  an inherited number other than 0 the assignment throws a \<^verbatim>\<open>TypeError\<close> (module code is
  strict). The result is the shared objects and the index, \<open>None\<close> when the iteration
  throws. The row is only read.
\<close>

definition transformStep ::
  "SharedObjects \<Rightarrow> ProgressData \<Rightarrow> AttemptRow \<Rightarrow> SharedObjects \<times> ProgressData option" where
  "transformStep shared transformedData record =
     (let studentId = row_user_id record;
          studentProgress = (case transformedData studentId of
                               None \<Rightarrow> Map.empty
                             | Some sp \<Rightarrow> sp);
          opn = row_operation record;
          key = stageKey (row_stage record);
          created = transformedData(studentId \<mapsto> studentProgress(opn \<mapsto> Map.empty(key \<mapsto> row_score record)))
      in case getMember shared studentProgress opn of
           Undefined \<Rightarrow> (shared, Some created)
         | Primitive n \<Rightarrow> if n = 0 then (shared, Some created) else (shared, None)
         | OwnObject p \<Rightarrow>
             (shared,
              Some (transformedData(studentId \<mapsto> studentProgress(opn \<mapsto> p(key \<mapsto> row_score record)))))
         | BuiltinFunction f \<Rightarrow>
             (shared\<lparr>functionProps :=
                       (functionProps shared)(f := (functionProps shared f)(key \<mapsto> row_score record))\<rparr>,
              Some (transformedData(studentId \<mapsto> studentProgress)))
         | ObjectPrototype \<Rightarrow>
             (shared\<lparr>prototypeProps := (prototypeProps shared)(key \<mapsto> row_score record)\<rparr>,
              Some (transformedData(studentId \<mapsto> studentProgress))))"

text \<open>The loop: it stops at the iteration that throws.\<close>

fun transformLoop ::
  "SharedObjects \<Rightarrow> ProgressData \<Rightarrow> AttemptRow list \<Rightarrow> SharedObjects \<times> ProgressData option" where
  "transformLoop shared transformedData [] = (shared, Some transformedData)"
| "transformLoop shared transformedData (record # rest) =
     (case transformStep shared transformedData record of
        (shared', None) \<Rightarrow> (shared', None)
      | (shared', Some transformedData') \<Rightarrow> transformLoop shared' transformedData' rest)"

text \<open>The whole loop, from \<^verbatim>\<open>const transformedData: ProgressData = {}\<close>.\<close>

definition transformProgress ::
  "SharedObjects \<Rightarrow> AttemptRow list \<Rightarrow> SharedObjects \<times> ProgressData option" where
  "transformProgress shared data = transformLoop shared Map.empty data"

text \<open>
  The own properties of the index: the entry of an operation under a student, and of a
  stage key under it (what \<^verbatim>\<open>Object.keys\<close> and \<^verbatim>\<open>Object.entries\<close> list in the
  dashboards).
\<close>

definition lookupOperation :: "ProgressData \<Rightarrow> Uuid \<Rightarrow> string \<Rightarrow> Progress option" where
  "lookupOperation pd studentId opn = (case pd studentId of None \<Rightarrow> None | Some sp \<Rightarrow> sp opn)"

definition lookupStage :: "ProgressData \<Rightarrow> Uuid \<Rightarrow> string \<Rightarrow> string \<Rightarrow> int option" where
  "lookupStage pd studentId opn key =
     (case lookupOperation pd studentId opn of None \<Rightarrow> None | Some p \<Rightarrow> p key)"

text \<open>A row that writes the entry \<open>(studentId, opn, key)\<close> of the index.\<close>

definition rowMatches :: "Uuid \<Rightarrow> string \<Rightarrow> string \<Rightarrow> AttemptRow \<Rightarrow> bool" where
  "rowMatches studentId opn key r \<longleftrightarrow>
     row_user_id r = studentId \<and> row_operation r = opn \<and> stageKey (row_stage r) = key"


section \<open>Session and quiz controller (context/AppContext.tsx)\<close>

text \<open>
  The provider's state is a record; every operation takes the state and returns the new
  one. \<open>sharedObjects\<close> is not state of the provider: it is what the normalizer has
  written to the shared objects of the page, which the operations that refresh the
  progress cache read and write. The remote service is outside the program: an operation
  returns the list of requests it issues (and of messages it logs), in order, and takes
  the service's replies as arguments. A reply \<^verbatim>\<open>{ data, error }\<close> is \<open>Inl message\<close> for
  an error and \<open>Inr data\<close> otherwise; a reply whose data is not read is \<open>Some message\<close>
  for an error and \<open>None\<close> otherwise. An asynchronous operation is modelled from its call
  to its completion. The promise of an operation that refreshes the progress cache is
  rejected when the normalizer throws, and fulfilled otherwise.
\<close>

record AppState =
  isLoading :: bool
  users :: "User list"
  currentUser :: "User option"
  progressData :: ProgressData
  view :: View
  quizSettings :: "QuizSettings option"
  quizResults :: "QuizSummary option"
  sharedObjects :: SharedObjects

definition initialAppState :: AppState where
  "initialAppState =
     \<lparr>isLoading = True, users = [], currentUser = None, progressData = Map.empty,
      view = LoginView, quizSettings = None, quizResults = None,
      sharedObjects = initialSharedObjects\<rparr>"

datatype Effect =
    AuthSignInWithPassword string string
  | AuthSignOut
  | AuthSignUp string "string option" string Role
  | ProfilesSelectAll
  | ProfilesSelectEqId Uuid
  | ProfilesUpdateChildId string Uuid
  | ProfilesUpdate Uuid string Role "string option"
  | ProfilesDeleteEqId Uuid
  | ProgressSelectAll
  | ProgressInsert Uuid Operation int real real
  | ProgressDeleteEqUserId Uuid
  | ConsoleError string string

datatype Completion = Fulfilled | Rejected

record Result =
  success :: bool
  message :: string

record Session =
  session_user_id :: Uuid
  session_user_email :: string

definition setView :: "View \<Rightarrow> AppState \<Rightarrow> AppState" where
  "setView v s = s\<lparr>view := v\<rparr>"

definition fetchAllUsers :: "string + User list \<Rightarrow> AppState \<Rightarrow> Effect list \<times> AppState" where
  "fetchAllUsers reply s =
     (case reply of
        Inl error \<Rightarrow> ([ProfilesSelectAll, ConsoleError ''Error fetching users:'' error], s)
      | Inr data \<Rightarrow> ([ProfilesSelectAll], s\<lparr>users := data\<rparr>))"

definition fetchAllProgressData ::
  "string + AttemptRow list \<Rightarrow> AppState \<Rightarrow> Effect list \<times> Completion \<times> AppState" where
  "fetchAllProgressData reply s =
     (case reply of
        Inl error \<Rightarrow>
          ([ProgressSelectAll, ConsoleError ''Error fetching progress data:'' error], Fulfilled, s)
      | Inr data \<Rightarrow>
          (case transformProgress (sharedObjects s) data of
             (shared, Some transformedData) \<Rightarrow>
               ([ProgressSelectAll], Fulfilled,
                s\<lparr>sharedObjects := shared, progressData := transformedData\<rparr>)
           | (shared, None) \<Rightarrow> ([ProgressSelectAll], Rejected, s\<lparr>sharedObjects := shared\<rparr>)))"

text \<open>
  The callback given to \<^verbatim>\<open>supabase.auth.onAuthStateChange\<close>. \<open>session\<close> is the
  notification's session or \<open>None\<close>; \<open>profile\<close> is the row found for the session's user,
  if any. When the refresh throws, \<^verbatim>\<open>setIsLoading(false)\<close> is not reached.
\<close>

definition onAuthStateChange ::
  "Session option \<Rightarrow> User option \<Rightarrow> string + User list \<Rightarrow> string + AttemptRow list \<Rightarrow>
   AppState \<Rightarrow> Effect list \<times> Completion \<times> AppState" where
  "onAuthStateChange session profile usersReply progressReply s =
     (case session of
        Some sess \<Rightarrow>
          (case profile of
             Some p \<Rightarrow>
               (let userWithEmail = p\<lparr>email := session_user_email sess\<rparr>;
                    s1 = s\<lparr>currentUser := Some userWithEmail\<rparr>;
                    s2 = setView DashboardView s1;
                    (e3, s3) = fetchAllUsers usersReply s2;
                    (e4, c4, s4) = fetchAllProgressData progressReply s3
                in ([ProfilesSelectEqId (session_user_id sess)] @ e3 @ e4, c4,
                    (case c4 of Fulfilled \<Rightarrow> s4\<lparr>isLoading := False\<rparr> | Rejected \<Rightarrow> s4)))
           | None \<Rightarrow>
               ([ProfilesSelectEqId (session_user_id sess)], Fulfilled, s\<lparr>isLoading := False\<rparr>))
      | None \<Rightarrow>
          ([], Fulfilled,
           (setView LoginView (s\<lparr>currentUser := None\<rparr>))
             \<lparr>users := [], progressData := Map.empty, isLoading := False\<rparr>))"

definition login ::
  "string \<Rightarrow> string \<Rightarrow> string option \<Rightarrow> AppState \<Rightarrow> Effect list \<times> Result \<times> AppState" where
  "login email_in password error s =
     ([AuthSignInWithPassword email_in password],
      (case error of
         Some msg \<Rightarrow> \<lparr>success = False, message = msg\<rparr>
       | None \<Rightarrow> \<lparr>success = True, message = ''Login successful!''\<rparr>),
      s)"

definition logout :: "AppState \<Rightarrow> Effect list \<times> unit \<times> AppState" where
  "logout s = ([AuthSignOut], (), s)"

text \<open>
  \<open>signUpReply\<close> is the reply of \<^verbatim>\<open>auth.signUp\<close>: an error, or the id of
  \<^verbatim>\<open>signUpData.user\<close> (\<open>None\<close> when the user is \<^verbatim>\<open>null\<close>). \<open>profileError\<close> is the
  reply of the update that links the child; it is read only when the update is issued.
  The update is issued when the user is not \<^verbatim>\<open>null\<close>, the role is
  \<^verbatim>\<open>'parent'\<close> and \<^verbatim>\<open>data.childId\<close> is truthy (present and not the empty string).
\<close>

definition signUpSuccessful :: Result where
  "signUpSuccessful =
     \<lparr>success = True,
      message = ''Sign up successful! Please check your email for a confirmation link.''\<rparr>"

definition signUp ::
  "UserData \<Rightarrow> string + Uuid option \<Rightarrow> string option \<Rightarrow> AppState \<Rightarrow>
   Effect list \<times> Result \<times> AppState" where
  "signUp data signUpReply profileError s =
     (let request = AuthSignUp (ud_email data) (ud_password data) (ud_name data) (ud_role data)
      in case signUpReply of
           Inl error \<Rightarrow> ([request], \<lparr>success = False, message = error\<rparr>, s)
         | Inr user \<Rightarrow>
             (case (user, ud_childId data) of
                (Some uid, Some child) \<Rightarrow>
                  (if ud_role data = Parent \<and> child \<noteq> [] then
                     (case profileError of
                        Some msg \<Rightarrow>
                          ([request, ProfilesUpdateChildId child uid],
                           \<lparr>success = False,
                            message = ''User created, but failed to link child: '' @ msg\<rparr>, s)
                      | None \<Rightarrow> ([request, ProfilesUpdateChildId child uid], signUpSuccessful, s))
                   else ([request], signUpSuccessful, s))
              | _ \<Rightarrow> ([request], signUpSuccessful, s)))"

definition addUser ::
  "UserData \<Rightarrow> string + Uuid option \<Rightarrow> string option \<Rightarrow> string + User list \<Rightarrow> AppState \<Rightarrow>
   Effect list \<times> Result \<times> AppState" where
  "addUser data signUpReply profileError usersReply s =
     (let (e1, result, s1) = signUp data signUpReply profileError s
      in if success result then
           (let (e2, s2) = fetchAllUsers usersReply s1
            in (e1 @ e2,
                \<lparr>success = True, message = ''User added successfully. Admin will be logged out.''\<rparr>,
                s2))
         else (e1, result, s1))"

definition updateUser ::
  "User \<Rightarrow> string option \<Rightarrow> string + User list \<Rightarrow> AppState \<Rightarrow>
   Effect list \<times> Result \<times> AppState" where
  "updateUser updatedUser error usersReply s =
     (let request = ProfilesUpdate (id_user updatedUser) (name updatedUser) (role updatedUser)
                      (childId updatedUser)
      in case error of
           Some msg \<Rightarrow> ([request], \<lparr>success = False, message = msg\<rparr>, s)
         | None \<Rightarrow>
             (let (e1, s1) = fetchAllUsers usersReply s
              in (request # e1, \<lparr>success = True, message = ''User updated successfully.''\<rparr>, s1)))"

text \<open>
  \<open>deleteUser\<close> returns \<^verbatim>\<open>Promise<void>\<close>: the caller receives the completion of the
  promise and no value. The two deletes are issued one after the other, whatever the first
  replied, and then the two refreshes.
\<close>

definition deleteUser ::
  "Uuid \<Rightarrow> string option \<Rightarrow> string option \<Rightarrow> string + User list \<Rightarrow> string + AttemptRow list \<Rightarrow>
   AppState \<Rightarrow> Effect list \<times> Completion \<times> AppState" where
  "deleteUser userId profileError progressError usersReply progressReply s =
     (let e1 = ProfilesDeleteEqId userId #
                 (case profileError of
                    Some msg \<Rightarrow> [ConsoleError ''Error deleting profile:'' msg]
                  | None \<Rightarrow> []);
          e2 = ProgressDeleteEqUserId userId #
                 (case progressError of
                    Some msg \<Rightarrow> [ConsoleError ''Error deleting progress:'' msg]
                  | None \<Rightarrow> []);
          (e3, s3) = fetchAllUsers usersReply s;
          (e4, c4, s4) = fetchAllProgressData progressReply s3
      in (e1 @ e2 @ e3 @ e4, c4, s4))"

definition startQuiz :: "QuizSettings \<Rightarrow> AppState \<Rightarrow> AppState" where
  "startQuiz settings_in s = setView QuizView (s\<lparr>quizSettings := Some settings_in\<rparr>)"

text \<open>
  \<open>finishQuiz\<close> is created by \<^verbatim>\<open>useCallback\<close> with \<^verbatim>\<open>currentUser\<close> as a dependency:
  its guard and its insert read the \<^verbatim>\<open>currentUser\<close> of the render that created it,
  the argument \<open>capturedUser\<close>, while its state updates act on the state current when it
  runs. \<open>error\<close> is the reply of the insert; \<open>progressReply\<close> is the reply of the
  refresh, read only when the insert succeeded. When the refresh throws,
  \<^verbatim>\<open>setView('results')\<close> is not reached.
\<close>

definition finishQuiz ::
  "User option \<Rightarrow> QuizSummary \<Rightarrow> string option \<Rightarrow> string + AttemptRow list \<Rightarrow> AppState \<Rightarrow>
   Effect list \<times> Completion \<times> AppState" where
  "finishQuiz capturedUser summary error progressReply s =
     (case capturedUser of
        None \<Rightarrow> ([], Fulfilled, s)
      | Some user \<Rightarrow>
          (if role user \<noteq> Student then ([], Fulfilled, s)
           else
             (let s1 = s\<lparr>quizResults := Some summary\<rparr>;
                  request = ProgressInsert (id_user user) (operation (settings summary))
                              (stage (settings summary)) (score summary) (totalTime summary)
              in case error of
                   Some msg \<Rightarrow>
                     ([request, ConsoleError ''Failed to save quiz progress:'' msg], Fulfilled,
                      setView ResultsView s1)
                 | None \<Rightarrow>
                     (let (e2, c2, s2) = fetchAllProgressData progressReply s1
                      in (request # e2, c2,
                          (case c2 of Fulfilled \<Rightarrow> setView ResultsView s2 | Rejected \<Rightarrow> s2))))))"

text \<open>
  The guard of the admin dashboard (components/screens/AdminDashboard.tsx): the delete
  button of a row is rendered when \<^verbatim>\<open>user.id !== currentUser?.id\<close>.
\<close>

definition deleteButtonShown :: "AppState \<Rightarrow> User \<Rightarrow> bool" where
  "deleteButtonShown s user =
     (case currentUser s of None \<Rightarrow> True | Some cu \<Rightarrow> id_user user \<noteq> id_user cu)"

section \<open>Quiz screen (components/screens/QuizScreen.tsx)\<close>

definition TOTAL_QUESTIONS :: nat where
  "TOTAL_QUESTIONS = 10"

text \<open>
  The component's state. \<open>st_startTime\<close> is a value of \<^verbatim>\<open>Date.now()\<close>, in
  milliseconds.
\<close>

record QuizScreenState =
  st_question :: "Question option"
  st_questionIndex :: nat
  st_userAnswer :: string
  st_results :: "QuizResult list"
  st_isAnswered :: bool
  st_feedback :: string
  st_startTime :: int

definition initialQuizScreenState :: "int \<Rightarrow> QuizScreenState" where
  "initialQuizScreenState now =
     \<lparr>st_question = None, st_questionIndex = 0, st_userAnswer = [], st_results = [],
      st_isAnswered = False, st_feedback = [], st_startTime = now\<rparr>"

text \<open>
  \<^verbatim>\<open>parseInt(str, 10)\<close>: leading white space is skipped, then an optional sign, then
  the longest run of decimal digits; with no digit the result is \<^verbatim>\<open>NaN\<close>.
\<close>

definition isWhiteSpace :: "char \<Rightarrow> bool" where
  "isWhiteSpace c = (c \<in> set [CHR '' '', CHR 0x09, CHR 0x0A, CHR 0x0B, CHR 0x0C, CHR 0x0D])"

definition isDigit :: "char \<Rightarrow> bool" where
  "isDigit c = (c \<in> set ''0123456789'')"

definition digitValue :: "char \<Rightarrow> nat" where
  "digitValue c = of_char c - 48"

definition parseInt :: "string \<Rightarrow> AnswerValue" where
  "parseInt str =
     (let trimmed = dropWhile isWhiteSpace str;
          (sign, rest) =
            (case trimmed of
               [] \<Rightarrow> (1, [])
             | c # cs \<Rightarrow>
                 if c = CHR ''-'' then (- 1, cs)
                 else if c = CHR ''+'' then (1, cs)
                 else (1, trimmed));
          digits = takeWhile isDigit rest
      in if digits = [] then NaN
         else Num (sign * int (foldl (\<lambda>acc c. 10 * acc + digitValue c) 0 digits)))"

text \<open>
  A function created by \<^verbatim>\<open>useCallback\<close> reads the values of the render that
  created it. \<open>nextQuestion\<close> reads \<^verbatim>\<open>quizSettings\<close>, \<^verbatim>\<open>questionIndex\<close>,
  \<^verbatim>\<open>results\<close> and \<^verbatim>\<open>finishQuiz\<close> (its dependency list): these are its captured
  values. The captured \<^verbatim>\<open>finishQuiz\<close> is given by the \<^verbatim>\<open>currentUser\<close> that it
  captured in turn. The updates written as \<^verbatim>\<open>setQuestionIndex(prev => prev + 1)\<close> act
  on the state current when they run.
\<close>

record NextQuestionClosure =
  cl_quizSettings :: "QuizSettings option"
  cl_questionIndex :: nat
  cl_results :: "QuizResult list"
  cl_finishQuiz :: "User option"

text \<open>
  The \<open>nextQuestion\<close> of a render: \<open>quizSettings_ctx\<close> and \<open>finishQuiz_ctx\<close> are the
  \<^verbatim>\<open>quizSettings\<close> and the \<^verbatim>\<open>finishQuiz\<close> (the \<^verbatim>\<open>currentUser\<close> it captured)
  that the render reads from the context.
\<close>

definition nextQuestionOfRender ::
  "QuizSettings option \<Rightarrow> User option \<Rightarrow> QuizScreenState \<Rightarrow> NextQuestionClosure" where
  "nextQuestionOfRender quizSettings_ctx finishQuiz_ctx s =
     \<lparr>cl_quizSettings = quizSettings_ctx, cl_questionIndex = st_questionIndex s,
      cl_results = st_results s, cl_finishQuiz = finishQuiz_ctx\<rparr>"

text \<open>
  \<open>nextQuestion\<close> returns the summary it hands to its captured \<^verbatim>\<open>finishQuiz\<close>, if
  it does, and the component's new state. \<open>now\<close> is \<^verbatim>\<open>Date.now()\<close>, and \<open>rnd1\<close>, \<open>rnd2\<close>
  are the random values of the generated question.
\<close>

definition nextQuestion ::
  "NextQuestionClosure \<Rightarrow> int \<Rightarrow> Float64 \<Rightarrow> Float64 \<Rightarrow> QuizScreenState \<Rightarrow>
   QuizSummary option \<times> QuizScreenState" where
  "nextQuestion cl now rnd1 rnd2 s =
     (case cl_quizSettings cl of
        None \<Rightarrow> (None, s)
      | Some qs \<Rightarrow>
          (if cl_questionIndex cl \<ge> TOTAL_QUESTIONS then
             (let totalTime_v = foldl (\<lambda>sum r. sum + timeTaken r) 0 (cl_results cl);
                  score_v = (real (length (filter isCorrect (cl_results cl))) / real TOTAL_QUESTIONS) * 100
              in (Some \<lparr>settings = qs, results = cl_results cl, score = score_v,
                         totalTime = totalTime_v\<rparr>, s))
           else
             (None,
              s\<lparr>st_isAnswered := False, st_feedback := [], st_userAnswer := [],
                st_question := Some (generateQuestion (operation qs) (stage qs) rnd1 rnd2),
                st_questionIndex := st_questionIndex s + 1,
                st_startTime := now\<rparr>)))"

text \<open>
  \<open>handleAnswerSubmit\<close> is called on the current render, so the values it reads
  (\<^verbatim>\<open>isAnswered\<close>, \<^verbatim>\<open>question\<close>, \<^verbatim>\<open>startTime\<close>, \<^verbatim>\<open>nextQuestion\<close>) are those of
  the state \<open>s\<close>. It returns the \<open>nextQuestion\<close> it schedules with
  \<^verbatim>\<open>setTimeout(..., 1500)\<close>: the one of the render in which the answer was
  submitted, before the new result is in \<^verbatim>\<open>results\<close>. \<open>None\<close> is the early return.
\<close>

definition handleAnswerSubmit ::
  "QuizSettings option \<Rightarrow> User option \<Rightarrow> string \<Rightarrow> int \<Rightarrow> QuizScreenState \<Rightarrow>
   NextQuestionClosure option \<times> QuizScreenState" where
  "handleAnswerSubmit quizSettings_ctx finishQuiz_ctx answerStr now s =
     (case st_question s of
        None \<Rightarrow> (None, s)
      | Some q \<Rightarrow>
          (if st_isAnswered s then (None, s)
           else
             (let timeTaken_v = real_of_int (now - st_startTime s) / 1000;
                  answerNum = (if answerStr = [] then Null else parseInt answerStr);
                  isCorrect_v = (answerNum = Num (answer q));
                  feedback_v = (if isCorrect_v then ''Correct!''
                                else ''Oops! The correct answer was '' @ numberToString (answer q) @ ''.'')
              in (Some (nextQuestionOfRender quizSettings_ctx finishQuiz_ctx s),
                  s\<lparr>st_isAnswered := True, st_feedback := feedback_v,
                    st_results := st_results s @
                      [\<lparr>question = q, userAnswer = answerNum, isCorrect = isCorrect_v,
                        timeTaken = timeTaken_v\<rparr>]\<rparr>))))"

text \<open>The timer's callback submits the empty answer.\<close>

definition handleTimeUp ::
  "QuizSettings option \<Rightarrow> User option \<Rightarrow> int \<Rightarrow> QuizScreenState \<Rightarrow>
   NextQuestionClosure option \<times> QuizScreenState" where
  "handleTimeUp quizSettings_ctx finishQuiz_ctx now s =
     handleAnswerSubmit quizSettings_ctx finishQuiz_ctx [] now s"

text \<open>
  A session. The mount effect calls the \<open>nextQuestion\<close> of the first render once (a
  production build; the double invocation of effects in development is not modelled). Each
  question then receives one submission (an answer typed by the user, or the empty answer
  of the timer) at time \<open>sub_time\<close>; the scheduled \<open>nextQuestion\<close> runs at \<open>sub_next\<close>
  and draws \<open>sub_rnd1\<close>, \<open>sub_rnd2\<close> for the question that follows. The session ends when
  \<open>nextQuestion\<close> hands a summary to \<^verbatim>\<open>finishQuiz\<close>.
\<close>

record Submission =
  sub_answer :: string
  sub_time :: int
  sub_next :: int
  sub_rnd1 :: Float64
  sub_rnd2 :: Float64

fun answerQuestions ::
  "QuizSettings option \<Rightarrow> User option \<Rightarrow> Submission list \<Rightarrow> QuizScreenState \<Rightarrow>
   QuizSummary option \<times> QuizScreenState" where
  "answerQuestions quizSettings_ctx finishQuiz_ctx [] s = (None, s)"
| "answerQuestions quizSettings_ctx finishQuiz_ctx (a # rest) s =
     (case handleAnswerSubmit quizSettings_ctx finishQuiz_ctx (sub_answer a) (sub_time a) s of
        (None, s1) \<Rightarrow> answerQuestions quizSettings_ctx finishQuiz_ctx rest s1
      | (Some scheduled, s1) \<Rightarrow>
          (case nextQuestion scheduled (sub_next a) (sub_rnd1 a) (sub_rnd2 a) s1 of
             (Some summary, s2) \<Rightarrow> (Some summary, s2)
           | (None, s2) \<Rightarrow> answerQuestions quizSettings_ctx finishQuiz_ctx rest s2))"

definition runQuiz ::
  "QuizSettings option \<Rightarrow> User option \<Rightarrow> int \<Rightarrow> Float64 \<Rightarrow> Float64 \<Rightarrow> Submission list \<Rightarrow>
   QuizSummary option \<times> QuizScreenState" where
  "runQuiz quizSettings_ctx finishQuiz_ctx mountTime rnd1 rnd2 submissions =
     (let s0 = initialQuizScreenState mountTime;
          (_, s1) = nextQuestion (nextQuestionOfRender quizSettings_ctx finishQuiz_ctx s0)
                      mountTime rnd1 rnd2 s0
      in answerQuestions quizSettings_ctx finishQuiz_ctx submissions s1)"

text \<open>
  The callback of \<^verbatim>\<open>setTimeout(() => { nextQuestion(); }, 1500)\<close> within the provider:
  the scheduled \<open>nextQuestion\<close> runs on the component's state, and the summary it hands
  over goes to the \<open>finishQuiz\<close> it captured, which runs on the provider's state of that
  moment with the replies \<open>error\<close> and \<open>progressReply\<close>. The timeout is not cleared when
  the component unmounts.
\<close>

definition timeoutCallback ::
  "NextQuestionClosure \<Rightarrow> int \<Rightarrow> Float64 \<Rightarrow> Float64 \<Rightarrow> string option \<Rightarrow>
   string + AttemptRow list \<Rightarrow> AppState \<times> QuizScreenState \<Rightarrow>
   Effect list \<times> AppState \<times> QuizScreenState" where
  "timeoutCallback scheduled now rnd1 rnd2 error progressReply state =
     (case nextQuestion scheduled now rnd1 rnd2 (snd state) of
        (Some summary, scr) \<Rightarrow>
          (let (effects, _, app) =
                 finishQuiz (cl_finishQuiz scheduled) summary error progressReply (fst state)
           in (effects, app, scr))
      | (None, scr) \<Rightarrow> ([], fst state, scr))"

section \<open>Example values\<close>

definition example_admin :: User where
  "example_admin =
     \<lparr>id_user = 1, updated_at = None, name = ''Ada'', email = ''ada@example.org'',
      role = Admin, childId = None\<rparr>"

definition example_student :: User where
  "example_student =
     \<lparr>id_user = 5, updated_at = None, name = ''Sam'', email = ''sam@example.org'',
      role = Student, childId = None\<rparr>"

definition example_admin_state :: AppState where
  "example_admin_state =
     \<lparr>isLoading = False, users = [example_admin, example_student],
      currentUser = Some example_admin, progressData = Map.empty, view = DashboardView,
      quizSettings = None, quizResults = None, sharedObjects = initialSharedObjects\<rparr>"

definition example_settings :: QuizSettings where
  "example_settings = \<lparr>operation = ''addition'', stage = 1, timer = 3\<rparr>"

definition example_summary :: QuizSummary where
  "example_summary =
     \<lparr>settings = example_settings,
      results = [\<lparr>question = \<lparr>text = ''2 + 3 = ?'', answer = 5\<rparr>, userAnswer = Num 5,
                  isCorrect = True, timeTaken = 2\<rparr>],
      score = 10, totalTime = 2\<rparr>"


text \<open>The student taking a first quiz.\<close>

definition example_quiz_state :: AppState where
  "example_quiz_state =
     \<lparr>isLoading = False, users = [example_admin, example_student],
      currentUser = Some example_student, progressData = Map.empty, view = QuizView,
      quizSettings = Some example_settings, quizResults = None,
      sharedObjects = initialSharedObjects\<rparr>"

definition example_parent_data :: UserData where
  "example_parent_data =
     \<lparr>ud_name = ''Pat'', ud_email = ''pat@example.org'', ud_password = Some ''secret'',
      ud_role = Parent, ud_childId = Some ''00000000-0000-0000-0000-000000000005''\<rparr>"

text \<open>
  The admin is the user 1 and the student the user 5; the parent signing up names the
  student as the child, by the text of the id. Rows of the progress table are
  \<open>row_of user operation stage score\<close>.
\<close>

definition row_of :: "Uuid \<Rightarrow> string \<Rightarrow> int \<Rightarrow> int \<Rightarrow> AttemptRow" where
  "row_of u opn stg sc =
     \<lparr>row_user_id = u, row_operation = opn, row_stage = stg, row_score = sc, row_total_time = 20\<rparr>"

text \<open>The doubles 0.5 and 0.6 (the double nearest to six tenths).\<close>

definition half :: Float64 where
  "half = \<lparr>mantissa = 1, exponent = - 1\<rparr>"

definition six_tenths :: Float64 where
  "six_tenths = \<lparr>mantissa = 5404319552844595, exponent = - 53\<rparr>"

text \<open>
  A session of ten correct answers: every question is \<open>3 + 3\<close> (both random values are
  0.5), answered with \<open>6\<close> two seconds after it is shown; the next question is shown
  1.5 seconds later.
\<close>

definition correct_submission :: "int \<Rightarrow> Submission" where
  "correct_submission k =
     \<lparr>sub_answer = ''6'', sub_time = 3500 * k + 2000, sub_next = 3500 * k + 3500,
      sub_rnd1 = half, sub_rnd2 = half\<rparr>"

definition ten_correct_submissions :: "Submission list" where
  "ten_correct_submissions =
     [correct_submission 0, correct_submission 1, correct_submission 2, correct_submission 3,
      correct_submission 4, correct_submission 5, correct_submission 6, correct_submission 7,
      correct_submission 8, correct_submission 9]"

text \<open>The quiz screen after its mount effect, at time 0, for the example settings.\<close>

definition example_first_question :: QuizScreenState where
  "example_first_question =
     snd (nextQuestion
            (nextQuestionOfRender (Some example_settings) (Some example_student)
               (initialQuizScreenState 0))
            0 half half (initialQuizScreenState 0))"

text \<open>
  The quiz screen showing the tenth question (at time 31500), after nine correct answers,
  and the tenth answer submitted at time 33500 on that render.
\<close>

definition example_tenth_question :: QuizScreenState where
  "example_tenth_question =
     snd (answerQuestions (Some example_settings) (Some example_student)
            (take 9 ten_correct_submissions) example_first_question)"

definition example_tenth_answer :: "NextQuestionClosure option \<times> QuizScreenState" where
  "example_tenth_answer =
     handleAnswerSubmit (Some example_settings) (Some example_student) ''6'' 33500
       example_tenth_question"

text \<open>The provider's state after the student signs out during that quiz.\<close>

definition example_signed_out :: AppState where
  "example_signed_out =
     snd (snd (onAuthStateChange None None (Inr []) (Inr []) example_quiz_state))"


section \<open>Properties of the question generator\<close>

subsection \<open>The rounded product stays below the integer factor\<close>

lemma bitLength_less: "n < 2 ^ bitLength n"
proof (induction n rule: bitLength.induct)
  case (1 n)
  show ?case
  proof (cases "n = 0")
    case True
    then show ?thesis by (simp add: bitLength.simps[of 0])
  next
    case False
    from 1[OF False] have "n div 2 < 2 ^ bitLength (n div 2)" .
    then have "n < 2 * 2 ^ bitLength (n div 2)" by linarith
    then show ?thesis using False by (simp add: bitLength.simps[of n])
  qed
qed

lemma bitLength_ge: "0 < n \<Longrightarrow> 2 ^ (bitLength n - 1) \<le> n"
proof (induction n rule: bitLength.induct)
  case (1 n)
  from "1.prems" have nz: "n \<noteq> 0" by simp
  show ?case
  proof (cases "n div 2 = 0")
    case True
    then have "bitLength n = 1" using nz by (simp add: bitLength.simps[of n] bitLength.simps[of 0])
    then show ?thesis using "1.prems" by simp
  next
    case False
    then have p: "0 < n div 2" by simp
    from "1.IH"[OF nz p] have ih: "2 ^ (bitLength (n div 2) - 1) \<le> n div 2" .
    have b: "bitLength (n div 2) = Suc (bitLength (n div 2) - 1)"
      using False by (simp add: bitLength.simps[of "n div 2"])
    have "bitLength n = Suc (bitLength (n div 2))" using nz by (simp add: bitLength.simps[of n])
    then have "2 ^ (bitLength n - 1) = (2::nat) ^ bitLength (n div 2)" by simp
    also have "\<dots> = 2 * 2 ^ (bitLength (n div 2) - 1)" by (subst b) simp
    also have "\<dots> \<le> 2 * (n div 2)" using ih by simp
    also have "\<dots> \<le> n" by simp
    finally show ?thesis .
  qed
qed

lemma bitLength_le: "n < 2 ^ c \<Longrightarrow> bitLength n \<le> c"
proof (cases "n = 0")
  case True
  then show ?thesis by (simp add: bitLength.simps[of 0])
next
  case False
  assume "n < 2 ^ c"
  moreover from bitLength_ge[of n] False have "(2::nat) ^ (bitLength n - 1) \<le> n" by simp
  ultimately have "(2::nat) ^ (bitLength n - 1) < 2 ^ c" by (rule order_le_less_trans[rotated])
  then have "bitLength n - 1 < c" by (simp only: power_strict_increasing_iff one_less_numeral_iff semiring_norm)
  then show ?thesis by simp
qed

lemma roundHalfEven_upper:
  assumes "0 < k"
  shows "roundHalfEven m k * 2 ^ k \<le> m + 2 ^ (k - 1)"
proof -
  let ?q = "m div 2 ^ k" and ?r = "m mod 2 ^ k"
  have m: "m = ?q * 2 ^ k + ?r" using div_mult_mod_eq[of m "2 ^ k"] by simp
  have p: "(2::nat) ^ k = 2 * 2 ^ (k - 1)" using assms by (cases k) simp_all
  show ?thesis
  proof (cases "2 * ?r < 2 ^ k")
    case True
    then have "roundHalfEven m k = ?q" by (simp add: roundHalfEven_def Let_def)
    moreover have "?q * 2 ^ k \<le> m" using m by linarith
    ultimately show ?thesis by (simp add: trans_le_add1)
  next
    case False
    then have r: "2 ^ (k - 1) \<le> ?r" using p by simp
    have "roundHalfEven m k \<le> ?q + 1" using False by (simp add: roundHalfEven_def Let_def)
    then have "roundHalfEven m k * 2 ^ k \<le> (?q + 1) * 2 ^ k" by (rule mult_le_mono1)
    also have "\<dots> = ?q * 2 ^ k + 2 ^ k" by (simp add: algebra_simps)
    also have "\<dots> = ?q * 2 ^ k + 2 * 2 ^ (k - 1)" using p by simp
    also have "\<dots> \<le> ?q * 2 ^ k + ?r + 2 ^ (k - 1)" using r by simp
    also have "\<dots> = m + 2 ^ (k - 1)" using m by simp
    finally show ?thesis .
  qed
qed

lemma value_less_one:
  assumes "valueOf x < 1"
  shows "mantissa x = 0 \<or> (exponent x < 0 \<and> mantissa x < 2 ^ nat (- exponent x))"
proof (cases "0 \<le> exponent x")
  case True
  have "(1::real) \<le> 2 ^ nat (exponent x)" by simp
  then have "real (mantissa x) \<le> real (mantissa x) * 2 ^ nat (exponent x)"
    by (simp add: mult_le_cancel_left1)
  with assms True have "real (mantissa x) < 1" by (simp add: valueOf_def)
  then show ?thesis by simp
next
  case False
  with assms have "real (mantissa x) / 2 ^ nat (- exponent x) < 1" by (simp add: valueOf_def)
  then have "real (mantissa x) < 2 ^ nat (- exponent x)" by (simp add: divide_less_eq)
  then have "mantissa x < 2 ^ nat (- exponent x)"
    by (metis of_nat_less_iff of_nat_numeral of_nat_power)
  with False show ?thesis by simp
qed


lemma round_product_less:
  assumes m53: "m < 2 ^ 53" and mK: "m < 2 ^ K" and N: "0 < N" and big: "53 < bitLength (m * N)"
  shows "roundHalfEven (m * N) (bitLength (m * N) - 53) * 2 ^ (bitLength (m * N) - 53) < N * 2 ^ K"
proof -
  define k where "k = bitLength (m * N) - 53"
  have k: "0 < k" "bitLength (m * N) = 53 + k" using big by (simp_all add: k_def)
  have pos: "0 < m * N" using big by (cases "m * N = 0") (simp_all add: bitLength.simps[of 0])
  from bitLength_ge[OF pos] have lo: "2 ^ (52 + k) \<le> m * N" by (simp add: k(2))
  have "m * N < 2 ^ 53 * N" using m53 N by simp
  with lo have "(2::nat) ^ (52 + k) < 2 ^ 53 * N" by linarith
  moreover have "(2::nat) ^ (52 + k) = 2 ^ 53 * 2 ^ (k - 1)"
    using k(1) by (cases k) (simp_all add: power_add)
  ultimately have half: "2 ^ (k - 1) < N" by simp
  have "(m + 1) * N \<le> 2 ^ K * N" using mK by (intro mult_le_mono1) simp
  then have up: "m * N + N \<le> N * 2 ^ K" by (simp add: algebra_simps)
  have "roundHalfEven (m * N) k * 2 ^ k \<le> m * N + 2 ^ (k - 1)"
    by (rule roundHalfEven_upper[OF k(1)])
  also have "\<dots> < m * N + N" using half by simp
  also have "\<dots> \<le> N * 2 ^ K" by (rule up)
  finally show ?thesis by (simp add: k_def)
qed

lemma floor_round_product_less:
  assumes m53: "m < 2 ^ 53" and e: "e < 0" and mK: "m < 2 ^ nat (- e)" and N: "0 < N"
  shows "floorFloat64 (roundToFloat64 (m * N) e) < int N"
proof (cases "bitLength (m * N) \<le> 53")
  case True
  have "m * N < N * 2 ^ nat (- e)" using mK N by simp
  then have "m * N div 2 ^ nat (- e) < N" by (rule less_mult_imp_div_less)
  then show ?thesis using True e by (simp add: roundToFloat64_def floorFloat64_def)
next
  case False
  define k where "k = bitLength (m * N) - 53"
  define R where "R = roundHalfEven (m * N) k"
  define K where "K = nat (- e)"
  have big: "53 < bitLength (m * N)" using False by simp
  have r: "R * 2 ^ k < N * 2 ^ K"
    using round_product_less[OF m53 _ N big, of K] mK by (simp add: R_def k_def K_def)
  have res: "roundToFloat64 (m * N) e = \<lparr>mantissa = R, exponent = e + int k\<rparr>"
    using False by (simp add: roundToFloat64_def R_def k_def)
  have eK: "e = - int K" using e by (simp add: K_def)
  show ?thesis
  proof (cases "0 \<le> e + int k")
    case True
    then have kK: "K \<le> k" using eK by simp
    have "nat (e + int k) = k - K" using eK by simp
    moreover have "R * 2 ^ (k - K) * 2 ^ K < N * 2 ^ K"
      using r kK by (simp add: mult.assoc flip: power_add)
    then have "R * 2 ^ (k - K) < N" by simp
    then have "int (R * 2 ^ (k - K)) < int N" by (simp only: of_nat_less_iff)
    ultimately show ?thesis using True by (simp add: res floorFloat64_def)
  next
    case f: False
    then have kK: "k < K" using eK by simp
    have n: "nat (- (e + int k)) = K - k" using eK by simp
    have "R * 2 ^ k < N * 2 ^ (K - k) * 2 ^ k"
      using r kK by (simp add: mult.assoc flip: power_add)
    then have "R < N * 2 ^ (K - k)" by simp
    then have "R div 2 ^ (K - k) < N" by (rule less_mult_imp_div_less)
    then show ?thesis using f n by (simp add: res floorFloat64_def del: minus_add_distrib)
  qed
qed

lemma getRandomInt_bounds:
  assumes "isRandom rnd" "mn \<le> mx"
  shows "mn \<le> getRandomInt mn mx rnd \<and> getRandomInt mn mx rnd \<le> mx"
proof -
  define N where "N = nat (mx - mn + 1)"
  have N: "0 < N" "int N = mx - mn + 1" using assms(2) by (simp_all add: N_def)
  have g: "getRandomInt mn mx rnd
             = floorFloat64 (roundToFloat64 (mantissa rnd * N) (exponent rnd)) + mn"
    using assms(2) by (simp add: getRandomInt_def N_def Let_def)
  have lo: "0 \<le> floorFloat64 y" for y by (simp add: floorFloat64_def)
  have m53: "mantissa rnd < 2 ^ 53" using assms(1) by (simp add: isRandom_def isFloat64_def)
  have "floorFloat64 (roundToFloat64 (mantissa rnd * N) (exponent rnd)) < int N"
  proof (cases "mantissa rnd = 0")
    case True
    then show ?thesis using N(1)
      by (simp add: roundToFloat64_def floorFloat64_def bitLength.simps[of 0])
  next
    case False
    with value_less_one[of rnd] assms(1)
    have "exponent rnd < 0" "mantissa rnd < 2 ^ nat (- exponent rnd)"
      by (auto simp: isRandom_def)
    from floor_round_product_less[OF m53 this N(1)] show ?thesis .
  qed
  with lo[of "roundToFloat64 (mantissa rnd * N) (exponent rnd)"] g N(2) show ?thesis by simp
qed

lemma bitLength_eq: "2 ^ (b - 1) \<le> n \<Longrightarrow> n < 2 ^ b \<Longrightarrow> 0 < n \<Longrightarrow> bitLength n = b"
proof -
  assume a: "2 ^ (b - 1) \<le> n" "n < 2 ^ b" "0 < n"
  have le: "bitLength n \<le> b" using a(2) by (rule bitLength_le)
  have "(2::nat) ^ (b - 1) < 2 ^ bitLength n" using a(1) bitLength_less[of n] by linarith
  then have "b - 1 < bitLength n"
    by (simp only: power_strict_increasing_iff one_less_numeral_iff semiring_norm)
  with le show ?thesis by simp
qed

lemma bitLength_small: "n < 2 ^ 53 \<Longrightarrow> (bitLength n \<le> 53) = True"
  using bitLength_le[of n 53] by simp

lemma bitLength_27021597764222975: "bitLength 27021597764222975 = 55"
  by (rule bitLength_eq) simp_all

lemma bitLength_59447515081290545: "bitLength 59447515081290545 = 56"
  by (rule bitLength_eq) simp_all

lemma bitLength_64851834634135140: "bitLength 64851834634135140 = 56"
  by (rule bitLength_eq) simp_all

lemma bitLength_54043195528445950: "bitLength 54043195528445950 = 56"
  by (rule bitLength_eq) simp_all

subsection \<open>The bounds of each operation\<close>

lemma generateQuestion_addition:
  assumes "isRandom rnd1" "isRandom rnd2"
  shows "\<exists>num1 num2.
       text (generateQuestion ''addition'' stg rnd1 rnd2)
         = numberToString num1 @ '' + '' @ numberToString num2 @ '' = ?'' \<and>
       answer (generateQuestion ''addition'' stg rnd1 rnd2) = num1 + num2 \<and>
       0 \<le> num1 \<and> num1 \<le> (if stg = 1 then 5 else if stg = 2 then 10 else 20) \<and>
       0 \<le> num2 \<and> num2 \<le> (if stg = 1 then 5 else if stg = 2 then 10 else 20)"
  using getRandomInt_bounds[OF assms(1), of 0 5] getRandomInt_bounds[OF assms(2), of 0 5]
    getRandomInt_bounds[OF assms(1), of 0 10] getRandomInt_bounds[OF assms(2), of 0 10]
    getRandomInt_bounds[OF assms(1), of 0 20] getRandomInt_bounds[OF assms(2), of 0 20]
  by (auto simp: generateQuestion_def Let_def)

lemma generateQuestion_subtraction:
  assumes "isRandom rnd1" "isRandom rnd2"
  shows "\<exists>num1 num2.
       text (generateQuestion ''subtraction'' stg rnd1 rnd2)
         = numberToString num1 @ '' - '' @ numberToString num2 @ '' = ?'' \<and>
       answer (generateQuestion ''subtraction'' stg rnd1 rnd2) = num1 - num2 \<and>
       1 \<le> num1 \<and> num1 \<le> (if stg = 1 then 10 else 20) \<and>
       0 \<le> num2 \<and> num2 \<le> num1 \<and>
       0 \<le> answer (generateQuestion ''subtraction'' stg rnd1 rnd2)"
proof -
  have a: "1 \<le> getRandomInt 1 10 rnd1 \<and> getRandomInt 1 10 rnd1 \<le> 10"
    using getRandomInt_bounds[OF assms(1), of 1 10] by simp
  have b: "1 \<le> getRandomInt 1 20 rnd1 \<and> getRandomInt 1 20 rnd1 \<le> 20"
    using getRandomInt_bounds[OF assms(1), of 1 20] by simp
  have c: "0 \<le> getRandomInt 0 (getRandomInt 1 10 rnd1) rnd2 \<and>
           getRandomInt 0 (getRandomInt 1 10 rnd1) rnd2 \<le> getRandomInt 1 10 rnd1"
    using getRandomInt_bounds[OF assms(2), of 0 "getRandomInt 1 10 rnd1"] a by simp
  have d: "0 \<le> getRandomInt 0 (getRandomInt 1 20 rnd1) rnd2 \<and>
           getRandomInt 0 (getRandomInt 1 20 rnd1) rnd2 \<le> getRandomInt 1 20 rnd1"
    using getRandomInt_bounds[OF assms(2), of 0 "getRandomInt 1 20 rnd1"] b by simp
  show ?thesis
    using a b c d by (auto simp: generateQuestion_def Let_def)
qed

lemma generateQuestion_multiplication:
  assumes "isRandom rnd1" "isRandom rnd2"
  shows "\<exists>num1 num2.
       text (generateQuestion ''multiplication'' stg rnd1 rnd2)
         = numberToString num1 @ '' '' @ times_symbol @ '' '' @ numberToString num2 @ '' = ?'' \<and>
       answer (generateQuestion ''multiplication'' stg rnd1 rnd2) = num1 * num2 \<and>
       (if stg = 1 then 1 else if stg = 2 then 6 else 1) \<le> num1 \<and>
       num1 \<le> (if stg = 1 then 5 else 10) \<and>
       1 \<le> num2 \<and> num2 \<le> (if stg = 1 then 5 else 10)"
  using getRandomInt_bounds[OF assms(1), of 1 5] getRandomInt_bounds[OF assms(2), of 1 5]
    getRandomInt_bounds[OF assms(1), of 6 10] getRandomInt_bounds[OF assms(2), of 1 10]
    getRandomInt_bounds[OF assms(1), of 1 10]
  by (auto simp: generateQuestion_def Let_def)

text \<open>
  C2. For each of the three supported operations and every stage \<open>\<ge> 1\<close>, whatever the two
  values of \<^verbatim>\<open>Math.random()\<close> (doubles in \<open>[0, 1)\<close>), the question returned by
  \<open>generateQuestion\<close> is built from two operands \<open>num1\<close> and \<open>num2\<close> (its text shows them)
  that lie in the inclusive bounds of the stage: addition \<open>[0,5]\<close>, \<open>[0,10]\<close>, \<open>[0,20]\<close> for
  stage 1, 2 and above, with the sum as answer; subtraction with the minuend in \<open>[1,10]\<close>
  for stage 1 and \<open>[1,20]\<close> above, the subtrahend in \<open>[0, minuend]\<close>, and a difference that
  is never negative; multiplication with operands in \<open>[1,5]\<close>, in \<open>[6,10]\<close> and \<open>[1,10]\<close>,
  or both in \<open>[1,10]\<close>, with the product as answer. The bounds hold with the product
  of \<open>getRandomInt\<close> rounded to the nearest double. The function is a total function of
  its arguments and the two random values, with no state.
\<close>

theorem generateQuestion_within_stage_bounds:
  assumes "isRandom rnd1" "isRandom rnd2" "1 \<le> stg"
  shows
    "(\<exists>num1 num2.
       text (generateQuestion ''addition'' stg rnd1 rnd2)
         = numberToString num1 @ '' + '' @ numberToString num2 @ '' = ?'' \<and>
       answer (generateQuestion ''addition'' stg rnd1 rnd2) = num1 + num2 \<and>
       0 \<le> num1 \<and> num1 \<le> (if stg = 1 then 5 else if stg = 2 then 10 else 20) \<and>
       0 \<le> num2 \<and> num2 \<le> (if stg = 1 then 5 else if stg = 2 then 10 else 20)) \<and>
     (\<exists>num1 num2.
       text (generateQuestion ''subtraction'' stg rnd1 rnd2)
         = numberToString num1 @ '' - '' @ numberToString num2 @ '' = ?'' \<and>
       answer (generateQuestion ''subtraction'' stg rnd1 rnd2) = num1 - num2 \<and>
       1 \<le> num1 \<and> num1 \<le> (if stg = 1 then 10 else 20) \<and>
       0 \<le> num2 \<and> num2 \<le> num1 \<and>
       0 \<le> answer (generateQuestion ''subtraction'' stg rnd1 rnd2)) \<and>
     (\<exists>num1 num2.
       text (generateQuestion ''multiplication'' stg rnd1 rnd2)
         = numberToString num1 @ '' '' @ times_symbol @ '' '' @ numberToString num2 @ '' = ?'' \<and>
       answer (generateQuestion ''multiplication'' stg rnd1 rnd2) = num1 * num2 \<and>
       (if stg = 1 then 1 else if stg = 2 then 6 else 1) \<le> num1 \<and>
       num1 \<le> (if stg = 1 then 5 else 10) \<and>
       1 \<le> num2 \<and> num2 \<le> (if stg = 1 then 5 else 10))"
  using generateQuestion_addition[OF assms(1,2), of stg]
    generateQuestion_subtraction[OF assms(1,2), of stg]
    generateQuestion_multiplication[OF assms(1,2), of stg]
  by blast

theorem generateQuestion_within_stage_bounds_witness:
  "isRandom half \<and> isRandom six_tenths \<and> (1::int) \<le> 2 \<and>
   getRandomInt 0 4 six_tenths = 3 \<and> valueOf six_tenths * 5 < 3 \<and>
   generateQuestion ''addition'' 2 half six_tenths = \<lparr>text = ''5 + 6 = ?'', answer = 11\<rparr> \<and>
   generateQuestion ''subtraction'' 2 half six_tenths = \<lparr>text = ''11 - 7 = ?'', answer = 4\<rparr> \<and>
   answer (generateQuestion ''multiplication'' 2 half six_tenths) = 56 \<and>
   (\<exists>num1 num2.
       text (generateQuestion ''subtraction'' 2 half six_tenths)
         = numberToString num1 @ '' - '' @ numberToString num2 @ '' = ?'' \<and>
       answer (generateQuestion ''subtraction'' 2 half six_tenths) = num1 - num2 \<and>
       1 \<le> num1 \<and> num1 \<le> 20 \<and> 0 \<le> num2 \<and> num2 \<le> num1 \<and>
       0 \<le> answer (generateQuestion ''subtraction'' 2 half six_tenths))"
proof -
  have h: "isRandom half" "isRandom six_tenths" "(1::int) \<le> 2"
    by (simp_all add: isRandom_def isFloat64_def valueOf_def half_def six_tenths_def)
  have r: "getRandomInt 0 4 six_tenths = 3" "valueOf six_tenths * 5 < 3"
    by (simp_all add: getRandomInt_def roundToFloat64_def floorFloat64_def six_tenths_def
        bitLength_27021597764222975 roundHalfEven_def Let_def valueOf_def)
  have g: "getRandomInt 0 10 half = 5" "getRandomInt 1 20 half = 11" "getRandomInt 6 10 half = 8"
    by (simp_all add: getRandomInt_def roundToFloat64_def floorFloat64_def half_def bitLength_small)
  have s: "getRandomInt 0 10 six_tenths = 6" "getRandomInt 0 11 six_tenths = 7"
    "getRandomInt 1 10 six_tenths = 7"
    by (simp_all add: getRandomInt_def roundToFloat64_def floorFloat64_def six_tenths_def
        bitLength_59447515081290545 bitLength_64851834634135140 bitLength_54043195528445950
        roundHalfEven_def Let_def)
  have n: "numberToString 5 = ''5''" "numberToString 6 = ''6''" "numberToString 11 = ''11''"
    "numberToString 7 = ''7''"
    by (simp_all add: numberToString_def string_of_nat.simps digit_char_def)
  have v: "generateQuestion ''addition'' 2 half six_tenths = \<lparr>text = ''5 + 6 = ?'', answer = 11\<rparr>"
    "generateQuestion ''subtraction'' 2 half six_tenths = \<lparr>text = ''11 - 7 = ?'', answer = 4\<rparr>"
    "answer (generateQuestion ''multiplication'' 2 half six_tenths) = 56"
    by (simp_all add: generateQuestion_def g s n)
  from generateQuestion_within_stage_bounds[OF h] have
    "\<exists>num1 num2.
       text (generateQuestion ''subtraction'' 2 half six_tenths)
         = numberToString num1 @ '' - '' @ numberToString num2 @ '' = ?'' \<and>
       answer (generateQuestion ''subtraction'' 2 half six_tenths) = num1 - num2 \<and>
       1 \<le> num1 \<and> num1 \<le> 20 \<and> 0 \<le> num2 \<and> num2 \<le> num1 \<and>
       0 \<le> answer (generateQuestion ''subtraction'' 2 half six_tenths)"
    by simp
  with h r v show ?thesis by blast
qed

section \<open>Properties of the progress normalizer\<close>

subsection \<open>The stage key determines the stage\<close>

lemma string_of_nat_nonempty: "string_of_nat n \<noteq> []"
  by (subst string_of_nat.simps) simp

lemma digit_char_inj: "d < 10 \<Longrightarrow> e < 10 \<Longrightarrow> digit_char d = digit_char e \<Longrightarrow> d = e"
proof -
  assume a: "d < 10" "e < 10" "digit_char d = digit_char e"
  have "distinct ''0123456789''" by simp
  moreover have "d < length ''0123456789''" "e < length ''0123456789''" using a by simp_all
  ultimately show ?thesis using a(3) unfolding digit_char_def
    by (simp only: nth_eq_iff_index_eq)
qed

lemma digit_char_in: "d < 10 \<Longrightarrow> digit_char d \<in> set ''0123456789''"
  unfolding digit_char_def by (rule nth_mem) simp

lemma string_of_nat_digits: "set (string_of_nat n) \<subseteq> set ''0123456789''"
proof (induction n rule: string_of_nat.induct)
  case (1 n)
  show ?case
  proof (cases "n < 10")
    case True
    then show ?thesis using digit_char_in[of n] by (subst string_of_nat.simps) simp
  next
    case False
    have "n mod 10 < 10" by simp
    then show ?thesis using False 1 digit_char_in[of "n mod 10"]
      by (subst string_of_nat.simps) simp
  qed
qed

lemma string_of_nat_inj: "string_of_nat m = string_of_nat n \<Longrightarrow> m = n"
proof (induction m arbitrary: n rule: string_of_nat.induct)
  case (1 m)
  show ?case
  proof (cases "m < 10")
    case True
    show ?thesis
    proof (cases "n < 10")
      case n: True
      from "1.prems" True n have "digit_char m = digit_char n"
        by (simp add: string_of_nat.simps[of m] string_of_nat.simps[of n])
      then show ?thesis using True n digit_char_inj by blast
    next
      case n: False
      from "1.prems" True n have "string_of_nat (n div 10) = []"
        by (simp add: string_of_nat.simps[of m] string_of_nat.simps[of n])
      then show ?thesis using string_of_nat_nonempty by blast
    qed
  next
    case False
    show ?thesis
    proof (cases "n < 10")
      case n: True
      from "1.prems" False n have "string_of_nat (m div 10) = []"
        by (simp add: string_of_nat.simps[of m] string_of_nat.simps[of n])
      then show ?thesis using string_of_nat_nonempty by blast
    next
      case n: False
      from "1.prems" False n have e: "string_of_nat (m div 10) = string_of_nat (n div 10)"
        "digit_char (m mod 10) = digit_char (n mod 10)"
        by (simp_all add: string_of_nat.simps[of m] string_of_nat.simps[of n])
      from "1.IH"[OF False e(1)] have d: "m div 10 = n div 10" .
      have "m mod 10 < 10" "n mod 10 < 10" by simp_all
      with e(2) digit_char_inj have "m mod 10 = n mod 10" by blast
      with d show ?thesis by (metis div_mult_mod_eq)
    qed
  qed
qed

lemma string_of_nat_no_minus: "hd (string_of_nat n) \<noteq> CHR ''-''"
proof -
  have "hd (string_of_nat n) \<in> set (string_of_nat n)"
    using string_of_nat_nonempty by simp
  then have "hd (string_of_nat n) \<in> set ''0123456789''"
    using string_of_nat_digits by blast
  then show ?thesis by auto
qed

lemma numberToString_inj: "numberToString i = numberToString j \<Longrightarrow> i = j"
proof -
  assume a: "numberToString i = numberToString j"
  show ?thesis
  proof (cases "i < 0")
    case True
    show ?thesis
    proof (cases "j < 0")
      case j: True
      with a True have "string_of_nat (nat (- i)) = string_of_nat (nat (- j))"
        by (simp add: numberToString_def)
      then have "nat (- i) = nat (- j)" by (rule string_of_nat_inj)
      with True j show ?thesis by simp
    next
      case j: False
      with a True have "CHR ''-'' # string_of_nat (nat (- i)) = string_of_nat (nat j)"
        by (simp add: numberToString_def)
      then have "hd (string_of_nat (nat j)) = CHR ''-''" by (metis list.sel(1))
      with string_of_nat_no_minus show ?thesis by blast
    qed
  next
    case False
    show ?thesis
    proof (cases "j < 0")
      case j: True
      with a False have "string_of_nat (nat i) = CHR ''-'' # string_of_nat (nat (- j))"
        by (simp add: numberToString_def)
      then have "hd (string_of_nat (nat i)) = CHR ''-''" by (metis list.sel(1))
      with string_of_nat_no_minus show ?thesis by blast
    next
      case j: False
      with a False have "string_of_nat (nat i) = string_of_nat (nat j)"
        by (simp add: numberToString_def)
      then have "nat i = nat j" by (rule string_of_nat_inj)
      with False j show ?thesis by simp
    qed
  qed
qed

lemma stageKey_inj: "stageKey a = stageKey b \<longleftrightarrow> a = b"
  using numberToString_inj by (auto simp: stageKey_def)

subsection \<open>One iteration, then the loop, on rows whose operation is not inherited\<close>

lemma find_snoc:
  "find P (xs @ [x]) = (case find P xs of None \<Rightarrow> (if P x then Some x else None) | Some y \<Rightarrow> Some y)"
  by (induction xs) simp_all

lemma getMember_plain:
  "\<not> inheritedKey shared key \<Longrightarrow>
   getMember shared sp key = (case sp key of None \<Rightarrow> Undefined | Some p \<Rightarrow> OwnObject p)"
  by (auto simp: getMember_def inheritedKey_def split: option.splits)

lemma transformStep_plain:
  assumes "\<not> inheritedKey shared (row_operation r)"
  shows "\<exists>td'. transformStep shared td r = (shared, Some td') \<and>
           (td' sid \<noteq> None) = (row_user_id r = sid \<or> td sid \<noteq> None) \<and>
           (lookupOperation td' sid opn \<noteq> None)
             = ((row_user_id r = sid \<and> row_operation r = opn) \<or> lookupOperation td sid opn \<noteq> None) \<and>
           lookupStage td' sid opn key
             = (if rowMatches sid opn key r then Some (row_score r) else lookupStage td sid opn key)"
  by (auto simp: transformStep_def getMember_plain[OF assms] lookupStage_def lookupOperation_def
      rowMatches_def Let_def split: option.splits)

lemma transformLoop_plain:
  assumes "\<forall>r\<in>set rs. \<not> inheritedKey shared (row_operation r)"
  shows "\<exists>index. transformLoop shared td rs = (shared, Some index) \<and>
           (index sid \<noteq> None) = ((\<exists>r\<in>set rs. row_user_id r = sid) \<or> td sid \<noteq> None) \<and>
           (lookupOperation index sid opn \<noteq> None)
             = ((\<exists>r\<in>set rs. row_user_id r = sid \<and> row_operation r = opn) \<or>
                lookupOperation td sid opn \<noteq> None) \<and>
           lookupStage index sid opn key
             = (case find (rowMatches sid opn key) (rev rs) of
                  Some r \<Rightarrow> Some (row_score r)
                | None \<Rightarrow> lookupStage td sid opn key)"
  using assms
proof (induction rs arbitrary: td)
  case Nil
  show ?case by simp
next
  case (Cons r rest)
  from Cons.prems have pr: "\<not> inheritedKey shared (row_operation r)"
    and prest: "\<forall>x\<in>set rest. \<not> inheritedKey shared (row_operation x)"
    by simp_all
  from transformStep_plain[OF pr, of td sid opn key]
  obtain td' where st: "transformStep shared td r = (shared, Some td')"
    and s1: "(td' sid \<noteq> None) = (row_user_id r = sid \<or> td sid \<noteq> None)"
    and s2: "(lookupOperation td' sid opn \<noteq> None)
             = ((row_user_id r = sid \<and> row_operation r = opn) \<or> lookupOperation td sid opn \<noteq> None)"
    and s3: "lookupStage td' sid opn key
             = (if rowMatches sid opn key r then Some (row_score r) else lookupStage td sid opn key)"
    by blast
  from Cons.IH[OF prest, of td']
  obtain index where lp: "transformLoop shared td' rest = (shared, Some index)"
    and i1: "(index sid \<noteq> None) = ((\<exists>x\<in>set rest. row_user_id x = sid) \<or> td' sid \<noteq> None)"
    and i2: "(lookupOperation index sid opn \<noteq> None)
             = ((\<exists>x\<in>set rest. row_user_id x = sid \<and> row_operation x = opn) \<or>
                lookupOperation td' sid opn \<noteq> None)"
    and i3: "lookupStage index sid opn key
             = (case find (rowMatches sid opn key) (rev rest) of
                  Some x \<Rightarrow> Some (row_score x)
                | None \<Rightarrow> lookupStage td' sid opn key)"
    by blast
  have l: "transformLoop shared td (r # rest) = (shared, Some index)"
    by (simp add: st lp)
  have a: "(index sid \<noteq> None) = ((\<exists>x\<in>set (r # rest). row_user_id x = sid) \<or> td sid \<noteq> None)"
    unfolding i1 s1 by auto
  have b: "(lookupOperation index sid opn \<noteq> None)
             = ((\<exists>x\<in>set (r # rest). row_user_id x = sid \<and> row_operation x = opn) \<or>
                lookupOperation td sid opn \<noteq> None)"
    unfolding i2 s2 by auto
  have c: "lookupStage index sid opn key
             = (case find (rowMatches sid opn key) (rev (r # rest)) of
                  Some x \<Rightarrow> Some (row_score x)
                | None \<Rightarrow> lookupStage td sid opn key)"
    unfolding i3 s3 by (simp add: find_snoc split: option.splits)
  from l a b c show ?case by blast
qed

text \<open>
  C3, as the code has it. For a list of attempt records none of whose operations is the
  name of a member that objects inherit (\<^verbatim>\<open>constructor\<close>, \<^verbatim>\<open>__proto__\<close> and the
  like, or a key written to \<^verbatim>\<open>Object.prototype\<close> earlier; the row type of the client
  admits the three operation names only), the normalizer does not throw, leaves the shared
  objects as they are, and returns an index in which a student key is present exactly when
  some row has that \<^verbatim>\<open>user_id\<close>, an operation key is present under a student exactly
  when some row has that student and operation, and the entry under
  \<open>(student, operation, key)\<close> is the score of the last row of the input, in its order,
  whose student, operation and stage key are these, and is absent when there is no such
  row. As the stage key determines the stage, the entry for \<open>stageKey stg\<close> is the score
  of the last row with that student, operation and stage: the last write wins. For the
  empty list the index is empty. The function reads its rows and returns a new index; the
  input list is not changed.
\<close>

theorem transformProgress_last_write_wins:
  assumes "\<forall>r\<in>set rs. \<not> inheritedKey shared (row_operation r)"
  shows "transformProgress shared [] = (shared, Some Map.empty) \<and>
         (\<exists>index. transformProgress shared rs = (shared, Some index) \<and>
            (index sid \<noteq> None) = (\<exists>r\<in>set rs. row_user_id r = sid) \<and>
            (lookupOperation index sid opn \<noteq> None)
              = (\<exists>r\<in>set rs. row_user_id r = sid \<and> row_operation r = opn) \<and>
            lookupStage index sid opn key
              = map_option row_score (find (rowMatches sid opn key) (rev rs)) \<and>
            lookupStage index sid opn (stageKey stg)
              = map_option row_score
                  (find (\<lambda>r. row_user_id r = sid \<and> row_operation r = opn \<and> row_stage r = stg)
                     (rev rs)))"
proof -
  have e: "rowMatches sid opn (stageKey stg)
           = (\<lambda>r. row_user_id r = sid \<and> row_operation r = opn \<and> row_stage r = stg)"
    by (auto simp: rowMatches_def stageKey_inj fun_eq_iff)
  from transformLoop_plain[OF assms, of Map.empty sid opn key]
  obtain index where l: "transformLoop shared Map.empty rs = (shared, Some index)"
    and a0: "(index sid \<noteq> None) = ((\<exists>r\<in>set rs. row_user_id r = sid) \<or> Map.empty sid \<noteq> None)"
    and b0: "(lookupOperation index sid opn \<noteq> None)
              = ((\<exists>r\<in>set rs. row_user_id r = sid \<and> row_operation r = opn) \<or>
                 lookupOperation Map.empty sid opn \<noteq> None)"
    and c0: "lookupStage index sid opn key
              = (case find (rowMatches sid opn key) (rev rs) of
                   Some r \<Rightarrow> Some (row_score r)
                 | None \<Rightarrow> lookupStage Map.empty sid opn key)"
    by blast
  have a: "(index sid \<noteq> None) = (\<exists>r\<in>set rs. row_user_id r = sid)"
    using a0 by simp
  have b: "(lookupOperation index sid opn \<noteq> None)
              = (\<exists>r\<in>set rs. row_user_id r = sid \<and> row_operation r = opn)"
    using b0 by (simp add: lookupOperation_def)
  have c: "lookupStage index sid opn key
              = map_option row_score (find (rowMatches sid opn key) (rev rs))"
    using c0 by (simp add: lookupOperation_def lookupStage_def split: option.splits)
  from transformLoop_plain[OF assms, of Map.empty sid opn "stageKey stg"]
  obtain index' where l': "transformLoop shared Map.empty rs = (shared, Some index')"
    and d0: "lookupStage index' sid opn (stageKey stg)
              = (case find (rowMatches sid opn (stageKey stg)) (rev rs) of
                   Some r \<Rightarrow> Some (row_score r)
                 | None \<Rightarrow> lookupStage Map.empty sid opn (stageKey stg))"
    by blast
  from l l' have "index' = index" by simp
  with d0 have d': "lookupStage index sid opn (stageKey stg)
              = map_option row_score
                  (find (\<lambda>r. row_user_id r = sid \<and> row_operation r = opn \<and> row_stage r = stg)
                     (rev rs))"
    by (simp add: e lookupOperation_def lookupStage_def split: option.splits)
  have "transformProgress shared [] = (shared, Some Map.empty)"
    by (simp add: transformProgress_def)
  with l a b c d' show ?thesis unfolding transformProgress_def by blast
qed

lemma stageKey_1: "stageKey 1 = ''stage1''"
  by (simp add: stageKey_def numberToString_def string_of_nat.simps digit_char_def)

lemma stageKey_2: "stageKey 2 = ''stage2''"
  by (simp add: stageKey_def numberToString_def string_of_nat.simps digit_char_def)

theorem transformProgress_last_write_wins_witness:
  "(\<exists>index.
      transformProgress initialSharedObjects
        [row_of 5 ''addition'' 1 50, row_of 5 ''addition'' 2 70, row_of 5 ''addition'' 1 90]
        = (initialSharedObjects, Some index) \<and>
      lookupStage index 5 ''addition'' (stageKey 1) = Some 90 \<and>
      lookupStage index 5 ''addition'' (stageKey 2) = Some 70 \<and>
      lookupStage index 5 ''subtraction'' (stageKey 1) = None \<and>
      index 6 = None)"
proof -
  let ?rs = "[row_of 5 ''addition'' 1 50, row_of 5 ''addition'' 2 70, row_of 5 ''addition'' 1 90]"
  have h: "\<forall>r\<in>set ?rs. \<not> inheritedKey initialSharedObjects (row_operation r)"
    by (simp add: inheritedKey_def builtinFunctionNames_def initialSharedObjects_def row_of_def)
  from transformProgress_last_write_wins[OF h, of 5 "''addition''" "''stage1''" 1]
  obtain index where i: "transformProgress initialSharedObjects ?rs = (initialSharedObjects, Some index)"
    and a: "lookupStage index 5 ''addition'' (stageKey 1) = Some 90"
    by (auto simp: row_of_def)
  from transformProgress_last_write_wins[OF h, of 5 "''addition''" "''stage1''" 2] i
  have b: "lookupStage index 5 ''addition'' (stageKey 2) = Some 70"
    by (auto simp: row_of_def)
  from transformProgress_last_write_wins[OF h, of 5 "''subtraction''" "''stage1''" 1] i
  have c: "lookupStage index 5 ''subtraction'' (stageKey 1) = None"
    by (auto simp: row_of_def)
  from transformProgress_last_write_wins[OF h, of 6 "''addition''" "''stage1''" 1] i
  have d: "index 6 = None"
    by (auto simp: row_of_def)
  from i a b c d show ?thesis by blast
qed

text \<open>
  The claim C3 fails on the code for a row whose operation is the name of an inherited
  member. With three rows for the operation \<^verbatim>\<open>constructor\<close> and stage 1, two of the
  user 5 (scores 50, then 90) and one of the user 6 (score 30), the lookup
  \<^verbatim>\<open>studentProgress['constructor']\<close> finds the built-in function \<^verbatim>\<open>Object\<close>: no
  operation key is created, the index holds the user 5 with no entry for the operation
  and none for the stage, where the claim has the score 90, and the scores are written to
  the shared function, where the score of the user 6 is the one that stays.
\<close>

theorem transformProgress_inherited_operation_counterexample:
  "(case transformProgress initialSharedObjects
           [row_of 5 ''constructor'' 1 50, row_of 5 ''constructor'' 1 90,
            row_of 6 ''constructor'' 1 30] of
      (shared, Some index) \<Rightarrow>
        index 5 \<noteq> None \<and>
        lookupOperation index 5 ''constructor'' = None \<and>
        lookupStage index 5 ''constructor'' (stageKey 1) = None \<and>
        functionProps shared ''constructor'' (stageKey 1) = Some 30
    | (shared, None) \<Rightarrow> False)"
  by (simp add: transformProgress_def transformStep_def getMember_def builtinFunctionNames_def
      initialSharedObjects_def row_of_def stageKey_1 lookupOperation_def lookupStage_def Let_def)

section \<open>Properties of the controller\<close>

subsection \<open>The refreshes\<close>

lemma fetchAllUsers_currentUser:
  "currentUser (snd (fetchAllUsers reply s)) = currentUser s"
  by (simp add: fetchAllUsers_def split: sum.splits)

lemma fetchAllProgressData_currentUser:
  "currentUser (snd (snd (fetchAllProgressData reply s))) = currentUser s"
  by (simp add: fetchAllProgressData_def split: sum.splits prod.splits option.splits)

lemma fetchAllProgressData_quizResults:
  "quizResults (snd (snd (fetchAllProgressData reply s))) = quizResults s"
  by (simp add: fetchAllProgressData_def split: sum.splits prod.splits option.splits)

lemma fetchAllProgressData_plain:
  assumes "\<forall>r\<in>set rows. \<not> inheritedKey (sharedObjects s) (row_operation r)"
  shows "\<exists>index. transformProgress (sharedObjects s) rows = (sharedObjects s, Some index) \<and>
           fetchAllProgressData (Inr rows) s
             = ([ProgressSelectAll], Fulfilled, s\<lparr>progressData := index\<rparr>)"
proof -
  from transformLoop_plain[OF assms, of Map.empty]
  obtain index where "transformProgress (sharedObjects s) rows = (sharedObjects s, Some index)"
    unfolding transformProgress_def by blast
  then show ?thesis by (simp add: fetchAllProgressData_def)
qed

lemma signUp_state: "snd (snd (signUp data r1 r2 s)) = s"
  by (simp add: signUp_def Let_def split: sum.splits option.splits)

lemma addUser_currentUser:
  "currentUser (snd (snd (addUser data r1 r2 ur s))) = currentUser s"
proof -
  obtain e1 res s1 where su: "signUp data r1 r2 s = (e1, res, s1)"
    by (cases "signUp data r1 r2 s") auto
  then have s1: "s1 = s" using signUp_state[of data r1 r2 s] by simp
  show ?thesis
    using fetchAllUsers_currentUser[of ur s]
    by (simp add: addUser_def su s1 Let_def split_def)
qed

lemma updateUser_currentUser:
  "currentUser (snd (snd (updateUser u err ur s))) = currentUser s"
  using fetchAllUsers_currentUser[of ur s]
  by (simp add: updateUser_def Let_def split_def split: option.splits)

subsection \<open>deleteUser\<close>

lemma deleteUser_effects:
  "fst (deleteUser userId pe ge ur pr s)
     = ProfilesDeleteEqId userId
       # (case pe of Some m \<Rightarrow> [ConsoleError ''Error deleting profile:'' m] | None \<Rightarrow> [])
       @ ProgressDeleteEqUserId userId
       # (case ge of Some m \<Rightarrow> [ConsoleError ''Error deleting progress:'' m] | None \<Rightarrow> [])
       @ ProfilesSelectAll
       # (case ur of Inl e \<Rightarrow> [ConsoleError ''Error fetching users:'' e] | Inr us \<Rightarrow> [])
       @ ProgressSelectAll
       # (case pr of Inl e \<Rightarrow> [ConsoleError ''Error fetching progress data:'' e] | Inr rows \<Rightarrow> [])"
  by (simp add: deleteUser_def fetchAllUsers_def fetchAllProgressData_def Let_def split_def
      split: sum.splits option.splits)

lemma deleteUser_completion:
  "fst (snd (deleteUser userId pe ge ur pr s))
     = (case pr of
          Inl e \<Rightarrow> Fulfilled
        | Inr rows \<Rightarrow>
            (case snd (transformProgress (sharedObjects s) rows) of
               None \<Rightarrow> Rejected
             | Some index \<Rightarrow> Fulfilled))"
  by (simp add: deleteUser_def fetchAllUsers_def fetchAllProgressData_def Let_def split_def
      split: sum.splits option.splits)

lemma deleteUser_users:
  "users (snd (snd (deleteUser userId pe ge ur pr s)))
     = (case ur of Inl e \<Rightarrow> users s | Inr us \<Rightarrow> us)"
  by (simp add: deleteUser_def fetchAllUsers_def fetchAllProgressData_def Let_def split_def
      split: sum.splits option.splits)

lemma deleteUser_progressData:
  "progressData (snd (snd (deleteUser userId pe ge ur pr s)))
     = (case pr of
          Inl e \<Rightarrow> progressData s
        | Inr rows \<Rightarrow>
            (case snd (transformProgress (sharedObjects s) rows) of
               None \<Rightarrow> progressData s
             | Some index \<Rightarrow> index))"
  by (simp add: deleteUser_def fetchAllUsers_def fetchAllProgressData_def Let_def split_def
      split: sum.splits option.splits)

lemma deleteUser_refreshed:
  assumes "\<forall>r\<in>set rows. \<not> inheritedKey (sharedObjects s) (row_operation r)"
  shows "\<exists>index. transformProgress (sharedObjects s) rows = (sharedObjects s, Some index) \<and>
           snd (deleteUser userId pe ge (Inr us) (Inr rows) s)
             = (Fulfilled, s\<lparr>users := us, progressData := index\<rparr>)"
proof -
  have sh: "\<forall>r\<in>set rows. \<not> inheritedKey (sharedObjects (s\<lparr>users := us\<rparr>)) (row_operation r)"
    using assms by simp
  from fetchAllProgressData_plain[OF sh]
  obtain index where "transformProgress (sharedObjects s) rows = (sharedObjects s, Some index)"
    "fetchAllProgressData (Inr rows) (s\<lparr>users := us\<rparr>)
       = ([ProgressSelectAll], Fulfilled, s\<lparr>users := us, progressData := index\<rparr>)"
    by auto
  then show ?thesis
    by (simp add: deleteUser_def fetchAllUsers_def Let_def)
qed

lemma deleteUser_ignores_currentUser:
  "deleteUser userId pe ge ur pr (s\<lparr>currentUser := cu\<rparr>)
     = (fst (deleteUser userId pe ge ur pr s), fst (snd (deleteUser userId pe ge ur pr s)),
        (snd (snd (deleteUser userId pe ge ur pr s)))\<lparr>currentUser := cu\<rparr>)"
  by (simp add: deleteUser_def fetchAllUsers_def fetchAllProgressData_def Let_def split_def
      split: sum.splits option.splits)

lemma deleteUser_currentUser:
  "currentUser (snd (snd (deleteUser uid pe ge ur pr s))) = currentUser s"
  using fetchAllUsers_currentUser[of ur s]
    fetchAllProgressData_currentUser[of pr "snd (fetchAllUsers ur s)"]
  by (simp add: deleteUser_def Let_def split_def)

subsection \<open>finishQuiz and the session handler\<close>

lemma finishQuiz_currentUser:
  "currentUser (snd (snd (finishQuiz cu summary err pr s))) = currentUser s"
proof (cases cu)
  case None
  then show ?thesis by (simp add: finishQuiz_def)
next
  case (Some u)
  show ?thesis
    using fetchAllProgressData_currentUser[of pr "s\<lparr>quizResults := Some summary\<rparr>"]
    by (simp add: finishQuiz_def Some Let_def setView_def split_def
        split: option.splits Completion.splits)
qed

lemma onAuthStateChange_signed_in:
  "currentUser (snd (snd (onAuthStateChange (Some sess) (Some p) ur pr s)))
     = Some (p\<lparr>email := session_user_email sess\<rparr>)"
proof -
  let ?s2 = "setView DashboardView (s\<lparr>currentUser := Some (p\<lparr>email := session_user_email sess\<rparr>)\<rparr>)"
  have "currentUser (snd (snd (fetchAllProgressData pr (snd (fetchAllUsers ur ?s2)))))
          = currentUser ?s2"
    by (simp only: fetchAllProgressData_currentUser fetchAllUsers_currentUser)
  then show ?thesis
    by (simp add: onAuthStateChange_def Let_def split_def split: Completion.splits)
      (simp add: setView_def)
qed

text \<open>
  C7. \<open>login\<close> and \<open>logout\<close> only issue a request to the authentication service: the
  state, and with it \<open>currentUser\<close>, is the same when they return. No other operation of
  the controller changes \<open>currentUser\<close> either. The handler of the session-change
  notification sets it to the profile found for the session (with the session's email),
  leaves it as it is when no profile is found, and clears it when the session is absent.
\<close>

theorem currentUser_changes_only_in_auth_handler:
  "fst (login em pw err s) = [AuthSignInWithPassword em pw] \<and>
   snd (snd (login em pw err s)) = s \<and>
   logout s = ([AuthSignOut], (), s) \<and>
   currentUser (snd (snd (signUp data r1 r2 s))) = currentUser s \<and>
   currentUser (snd (snd (addUser data r1 r2 ur s))) = currentUser s \<and>
   currentUser (snd (snd (updateUser u err ur s))) = currentUser s \<and>
   currentUser (snd (snd (deleteUser uid pe ge ur pr s))) = currentUser s \<and>
   currentUser (startQuiz qs s) = currentUser s \<and>
   currentUser (snd (snd (finishQuiz captured summary err pr s))) = currentUser s \<and>
   currentUser (setView v s) = currentUser s \<and>
   currentUser (snd (fetchAllUsers ur s)) = currentUser s \<and>
   currentUser (snd (snd (fetchAllProgressData pr s))) = currentUser s \<and>
   currentUser (snd (snd (onAuthStateChange (Some sess) (Some p) ur pr s)))
     = Some (p\<lparr>email := session_user_email sess\<rparr>) \<and>
   currentUser (snd (snd (onAuthStateChange (Some sess) None ur pr s))) = currentUser s \<and>
   currentUser (snd (snd (onAuthStateChange None profile ur pr s))) = None"
proof -
  have a: "fst (login em pw err s) = [AuthSignInWithPassword em pw]"
    "snd (snd (login em pw err s)) = s" "logout s = ([AuthSignOut], (), s)"
    by (simp_all add: login_def logout_def)
  have b: "currentUser (snd (snd (signUp data r1 r2 s))) = currentUser s"
    by (simp add: signUp_state)
  have c: "currentUser (startQuiz qs s) = currentUser s" "currentUser (setView v s) = currentUser s"
    by (simp_all add: startQuiz_def setView_def)
  have d: "currentUser (snd (snd (onAuthStateChange (Some sess) None ur pr s))) = currentUser s"
    "currentUser (snd (snd (onAuthStateChange None profile ur pr s))) = None"
    by (simp_all add: onAuthStateChange_def setView_def)
  show ?thesis
    using a b c d addUser_currentUser[of data r1 r2 ur s] updateUser_currentUser[of u err ur s]
      deleteUser_currentUser[of uid pe ge ur pr s]
      finishQuiz_currentUser[of captured summary err pr s]
      fetchAllUsers_currentUser[of ur s] fetchAllProgressData_currentUser[of pr s]
      onAuthStateChange_signed_in[of sess p ur pr s]
    by blast
qed

theorem currentUser_changes_only_in_auth_handler_witness:
  "snd (snd (login ''sam@example.org'' ''pw'' None example_admin_state)) = example_admin_state \<and>
   currentUser (snd (snd (onAuthStateChange
      (Some \<lparr>session_user_id = 5, session_user_email = ''sam@example.org''\<rparr>)
      (Some example_student) (Inr []) (Inr []) example_admin_state))) = Some example_student \<and>
   currentUser (snd (snd (onAuthStateChange None None (Inr []) (Inr []) example_admin_state))) = None"
  using currentUser_changes_only_in_auth_handler
    [where em = "''sam@example.org''" and pw = "''pw''" and err = None and s = example_admin_state
       and ur = "Inr []" and pr = "Inr []" and p = example_student and profile = None
       and sess = "\<lparr>session_user_id = 5, session_user_email = ''sam@example.org''\<rparr>"]
  by (simp add: example_student_def)

lemma parseInt_6: "parseInt ''6'' = Num 6"
  by (simp add: parseInt_def isWhiteSpace_def isDigit_def digitValue_def)

lemma getRandomInt_0_5_half: "getRandomInt 0 5 half = 3"
  by (simp add: getRandomInt_def roundToFloat64_def floorFloat64_def half_def bitLength_small)

lemma generateQuestion_example:
  "generateQuestion ''addition'' 1 half half = \<lparr>text = ''3 + 3 = ?'', answer = 6\<rparr>"
  by (simp add: generateQuestion_def getRandomInt_0_5_half numberToString_def
      string_of_nat.simps digit_char_def)

lemma example_first_question_eq:
  "example_first_question =
     \<lparr>st_question = Some \<lparr>text = ''3 + 3 = ?'', answer = 6\<rparr>, st_questionIndex = 1,
      st_userAnswer = [], st_results = [], st_isAnswered = False, st_feedback = [],
      st_startTime = 0\<rparr>"
  by (simp add: example_first_question_def nextQuestion_def nextQuestionOfRender_def
      initialQuizScreenState_def TOTAL_QUESTIONS_def example_settings_def
      generateQuestion_example)

lemma example_tenth_question_eq:
  "example_tenth_question =
     \<lparr>st_question = Some \<lparr>text = ''3 + 3 = ?'', answer = 6\<rparr>, st_questionIndex = 10,
      st_userAnswer = [],
      st_results = replicate 9 \<lparr>question = \<lparr>text = ''3 + 3 = ?'', answer = 6\<rparr>,
                                 userAnswer = Num 6, isCorrect = True, timeTaken = 2\<rparr>,
      st_isAnswered = False, st_feedback = [], st_startTime = 31500\<rparr>"
  by (simp add: example_tenth_question_def example_first_question_eq ten_correct_submissions_def
      nextQuestionOfRender_def nextQuestion_def handleAnswerSubmit_def TOTAL_QUESTIONS_def
      example_settings_def generateQuestion_example parseInt_6 correct_submission_def Let_def
      numeral_eq_Suc)

lemma example_tenth_answer_eq:
  "example_tenth_answer =
     (Some \<lparr>cl_quizSettings = Some example_settings, cl_questionIndex = 10,
            cl_results = replicate 9 \<lparr>question = \<lparr>text = ''3 + 3 = ?'', answer = 6\<rparr>,
                                       userAnswer = Num 6, isCorrect = True, timeTaken = 2\<rparr>,
            cl_finishQuiz = Some example_student\<rparr>,
      \<lparr>st_question = Some \<lparr>text = ''3 + 3 = ?'', answer = 6\<rparr>, st_questionIndex = 10,
       st_userAnswer = [],
       st_results = replicate 10 \<lparr>question = \<lparr>text = ''3 + 3 = ?'', answer = 6\<rparr>,
                                   userAnswer = Num 6, isCorrect = True, timeTaken = 2\<rparr>,
       st_isAnswered = True, st_feedback = ''Correct!'', st_startTime = 31500\<rparr>)"
  by (simp add: example_tenth_answer_def example_tenth_question_eq handleAnswerSubmit_def
      nextQuestionOfRender_def parseInt_6 Let_def numeral_eq_Suc)

lemma example_signed_out_eq:
  "example_signed_out =
     \<lparr>isLoading = False, users = [], currentUser = None, progressData = Map.empty,
      view = LoginView, quizSettings = Some example_settings, quizResults = None,
      sharedObjects = initialSharedObjects\<rparr>"
  by (simp add: example_signed_out_def onAuthStateChange_def setView_def example_quiz_state_def)

text \<open>
  C6, on the code. The guard of \<open>finishQuiz\<close> reads the \<^verbatim>\<open>currentUser\<close> that the
  callback captured, not the one of the state in which it runs. The student submits the
  tenth answer, which schedules \<open>nextQuestion\<close> with that \<open>finishQuiz\<close>, and signs out
  before the timeout runs: \<open>currentUser\<close> is then absent, the login view is shown and no
  summary is held. The timeout still runs \<open>finishQuiz\<close>, which passes its guard, issues
  the insert for the student, stores the summary and sets \<open>view\<close> to the results screen.
\<close>

theorem finishQuiz_runs_after_sign_out:
  "currentUser example_signed_out = None \<and>
   view example_signed_out = LoginView \<and>
   quizResults example_signed_out = None \<and>
   (case example_tenth_answer of
      (Some scheduled, scr) \<Rightarrow>
        (case timeoutCallback scheduled 35000 half half (Some ''not authenticated'') (Inr [])
                (example_signed_out, scr) of
           (effects, app, scr') \<Rightarrow>
             currentUser app = None \<and>
             effects = [ProgressInsert 5 ''addition'' 1 90 18,
                        ConsoleError ''Failed to save quiz progress:'' ''not authenticated''] \<and>
             view app = ResultsView \<and>
             quizResults app \<noteq> None)
    | (None, scr) \<Rightarrow> False)"
  by (simp add: example_signed_out_eq example_tenth_answer_eq timeoutCallback_def nextQuestion_def
      TOTAL_QUESTIONS_def finishQuiz_def example_student_def example_settings_def setView_def
      Let_def numeral_eq_Suc)

text \<open>
  C10, as the code has it. When the \<^verbatim>\<open>currentUser\<close> that \<open>finishQuiz\<close> captured is a
  student, \<open>quizResults\<close> is set to the summary in every case. When the insert fails,
  \<open>finishQuiz\<close> issues the insert and logs the error, issues no refresh, so that
  \<open>progressData\<close> keeps its value, and sets \<open>view\<close> to the results screen. When the
  insert succeeds, it issues the insert and one refresh, and sets \<open>view\<close> to the results
  screen when the refresh completes: with a read error, which is logged and leaves
  \<open>progressData\<close> as it is, or with rows none of whose operations is the name of an
  inherited member, which \<open>progressData\<close> then holds in normalized form.
\<close>

theorem finishQuiz_student_outcome:
  assumes "role u = Student"
  shows "finishQuiz (Some u) summary (Some msg) pr s
           = ([ProgressInsert (id_user u) (operation (settings summary)) (stage (settings summary))
                 (score summary) (totalTime summary),
               ConsoleError ''Failed to save quiz progress:'' msg],
              Fulfilled, s\<lparr>quizResults := Some summary, view := ResultsView\<rparr>) \<and>
         finishQuiz (Some u) summary None (Inl e) s
           = ([ProgressInsert (id_user u) (operation (settings summary)) (stage (settings summary))
                 (score summary) (totalTime summary),
               ProgressSelectAll, ConsoleError ''Error fetching progress data:'' e],
              Fulfilled, s\<lparr>quizResults := Some summary, view := ResultsView\<rparr>) \<and>
         ((\<forall>r\<in>set rows. \<not> inheritedKey (sharedObjects s) (row_operation r)) \<longrightarrow>
            (\<exists>index. transformProgress (sharedObjects s) rows = (sharedObjects s, Some index) \<and>
               finishQuiz (Some u) summary None (Inr rows) s
                 = ([ProgressInsert (id_user u) (operation (settings summary))
                       (stage (settings summary)) (score summary) (totalTime summary),
                     ProgressSelectAll],
                    Fulfilled,
                    s\<lparr>quizResults := Some summary, progressData := index, view := ResultsView\<rparr>))) \<and>
         quizResults (snd (snd (finishQuiz (Some u) summary err pr s))) = Some summary"
proof -
  have a: "finishQuiz (Some u) summary (Some msg) pr s
           = ([ProgressInsert (id_user u) (operation (settings summary)) (stage (settings summary))
                 (score summary) (totalTime summary),
               ConsoleError ''Failed to save quiz progress:'' msg],
              Fulfilled, s\<lparr>quizResults := Some summary, view := ResultsView\<rparr>)"
    using assms by (simp add: finishQuiz_def Let_def setView_def)
  have b: "finishQuiz (Some u) summary None (Inl e) s
           = ([ProgressInsert (id_user u) (operation (settings summary)) (stage (settings summary))
                 (score summary) (totalTime summary),
               ProgressSelectAll, ConsoleError ''Error fetching progress data:'' e],
              Fulfilled, s\<lparr>quizResults := Some summary, view := ResultsView\<rparr>)"
    using assms by (simp add: finishQuiz_def Let_def setView_def fetchAllProgressData_def)
  have c: "(\<forall>r\<in>set rows. \<not> inheritedKey (sharedObjects s) (row_operation r)) \<longrightarrow>
            (\<exists>index. transformProgress (sharedObjects s) rows = (sharedObjects s, Some index) \<and>
               finishQuiz (Some u) summary None (Inr rows) s
                 = ([ProgressInsert (id_user u) (operation (settings summary))
                       (stage (settings summary)) (score summary) (totalTime summary),
                     ProgressSelectAll],
                    Fulfilled,
                    s\<lparr>quizResults := Some summary, progressData := index, view := ResultsView\<rparr>))"
  proof
    assume h: "\<forall>r\<in>set rows. \<not> inheritedKey (sharedObjects s) (row_operation r)"
    then have "\<forall>r\<in>set rows.
        \<not> inheritedKey (sharedObjects (s\<lparr>quizResults := Some summary\<rparr>)) (row_operation r)"
      by simp
    from fetchAllProgressData_plain[OF this]
    obtain index where "transformProgress (sharedObjects s) rows = (sharedObjects s, Some index)"
      "fetchAllProgressData (Inr rows) (s\<lparr>quizResults := Some summary\<rparr>)
         = ([ProgressSelectAll], Fulfilled, s\<lparr>quizResults := Some summary, progressData := index\<rparr>)"
      by auto
    then show "\<exists>index. transformProgress (sharedObjects s) rows = (sharedObjects s, Some index) \<and>
               finishQuiz (Some u) summary None (Inr rows) s
                 = ([ProgressInsert (id_user u) (operation (settings summary))
                       (stage (settings summary)) (score summary) (totalTime summary),
                     ProgressSelectAll],
                    Fulfilled,
                    s\<lparr>quizResults := Some summary, progressData := index, view := ResultsView\<rparr>)"
      using assms by (simp add: finishQuiz_def Let_def setView_def)
  qed
  have d: "quizResults (snd (snd (finishQuiz (Some u) summary err pr s))) = Some summary"
    using assms fetchAllProgressData_quizResults[of pr "s\<lparr>quizResults := Some summary\<rparr>"]
    by (simp add: finishQuiz_def Let_def setView_def split_def
        split: option.splits Completion.splits)
  from a b c d show ?thesis by blast
qed

theorem finishQuiz_student_outcome_witness:
  "role example_student = Student \<and>
   view example_quiz_state = QuizView \<and>
   quizResults example_quiz_state = None \<and>
   finishQuiz (Some example_student) example_summary (Some ''offline'') (Inr []) example_quiz_state
     = ([ProgressInsert 5 ''addition'' 1 10 2,
         ConsoleError ''Failed to save quiz progress:'' ''offline''],
        Fulfilled,
        example_quiz_state\<lparr>quizResults := Some example_summary, view := ResultsView\<rparr>) \<and>
   (\<exists>index.
      finishQuiz (Some example_student) example_summary None (Inr [row_of 5 ''addition'' 1 10])
         example_quiz_state
        = ([ProgressInsert 5 ''addition'' 1 10 2, ProgressSelectAll], Fulfilled,
           example_quiz_state
             \<lparr>quizResults := Some example_summary, progressData := index, view := ResultsView\<rparr>) \<and>
      lookupStage index 5 ''addition'' (stageKey 1) = Some 10)"
proof -
  have h: "role example_student = Student" by (simp add: example_student_def)
  have v: "view example_quiz_state = QuizView" "quizResults example_quiz_state = None"
    by (simp_all add: example_quiz_state_def)
  have p: "\<forall>r\<in>set [row_of 5 ''addition'' 1 10].
             \<not> inheritedKey (sharedObjects example_quiz_state) (row_operation r)"
    by (simp add: inheritedKey_def builtinFunctionNames_def initialSharedObjects_def row_of_def
        example_quiz_state_def)
  have t: "transformProgress (sharedObjects example_quiz_state) [row_of 5 ''addition'' 1 10]
             = (initialSharedObjects,
                Some (Map.empty(5 \<mapsto> Map.empty(''addition'' \<mapsto> Map.empty(''stage1'' \<mapsto> 10)))))"
    by (simp add: transformProgress_def transformStep_def getMember_def builtinFunctionNames_def
        initialSharedObjects_def row_of_def stageKey_1 example_quiz_state_def Let_def)
  from finishQuiz_student_outcome[OF h, of example_summary "''offline''" "Inr []"
      example_quiz_state _ "[row_of 5 ''addition'' 1 10]"] p
  have a: "finishQuiz (Some example_student) example_summary (Some ''offline'') (Inr [])
             example_quiz_state
     = ([ProgressInsert 5 ''addition'' 1 10 2,
         ConsoleError ''Failed to save quiz progress:'' ''offline''],
        Fulfilled,
        example_quiz_state\<lparr>quizResults := Some example_summary, view := ResultsView\<rparr>)"
    and "\<exists>index. transformProgress (sharedObjects example_quiz_state) [row_of 5 ''addition'' 1 10]
               = (sharedObjects example_quiz_state, Some index) \<and>
             finishQuiz (Some example_student) example_summary None
               (Inr [row_of 5 ''addition'' 1 10]) example_quiz_state
             = ([ProgressInsert 5 ''addition'' 1 10 2, ProgressSelectAll], Fulfilled,
                example_quiz_state
                  \<lparr>quizResults := Some example_summary, progressData := index,
                   view := ResultsView\<rparr>)"
    by (simp_all add: example_student_def example_summary_def example_settings_def)
  then obtain index where
    i: "transformProgress (sharedObjects example_quiz_state) [row_of 5 ''addition'' 1 10]
               = (sharedObjects example_quiz_state, Some index)"
    and f: "finishQuiz (Some example_student) example_summary None
               (Inr [row_of 5 ''addition'' 1 10]) example_quiz_state
             = ([ProgressInsert 5 ''addition'' 1 10 2, ProgressSelectAll], Fulfilled,
                example_quiz_state
                  \<lparr>quizResults := Some example_summary, progressData := index,
                   view := ResultsView\<rparr>)"
    by blast
  from i t have "index = Map.empty(5 \<mapsto> Map.empty(''addition'' \<mapsto> Map.empty(''stage1'' \<mapsto> 10)))"
    by simp
  then have l: "lookupStage index 5 ''addition'' (stageKey 1) = Some 10"
    by (simp add: lookupStage_def lookupOperation_def stageKey_1)
  from h v a f l show ?thesis by blast
qed

text \<open>
  The claim C10 fails on the code when the refresh throws. The insert succeeds and the
  store returns two rows of the student, the first with the operation \<^verbatim>\<open>__proto__\<close>
  (its score 90 is written to \<^verbatim>\<open>Object.prototype\<close> under \<^verbatim>\<open>stage1\<close>) and the second
  with the operation \<^verbatim>\<open>stage1\<close> (the lookup finds the inherited number 90, and the
  assignment to it throws): \<open>finishQuiz\<close> is rejected with \<open>quizResults\<close> set and \<open>view\<close>
  still on the quiz screen.
\<close>

theorem finishQuiz_refresh_throws_counterexample:
  "role example_student = Student \<and>
   view example_quiz_state = QuizView \<and>
   fst (snd (finishQuiz (Some example_student) example_summary None
               (Inr [row_of 5 ''__proto__'' 1 90, row_of 5 ''stage1'' 2 80]) example_quiz_state))
     = Rejected \<and>
   view (snd (snd (finishQuiz (Some example_student) example_summary None
               (Inr [row_of 5 ''__proto__'' 1 90, row_of 5 ''stage1'' 2 80]) example_quiz_state)))
     = QuizView \<and>
   quizResults (snd (snd (finishQuiz (Some example_student) example_summary None
               (Inr [row_of 5 ''__proto__'' 1 90, row_of 5 ''stage1'' 2 80]) example_quiz_state)))
     = Some example_summary"
  by (simp add: finishQuiz_def fetchAllProgressData_def transformProgress_def transformStep_def
      getMember_def builtinFunctionNames_def initialSharedObjects_def row_of_def stageKey_1
      stageKey_2 example_quiz_state_def example_student_def setView_def Let_def)

text \<open>
  C5, as the code has it. \<open>deleteUser\<close> has no guard: for every state and every id, the
  id of \<open>currentUser\<close> included, it issues the delete of the profile and the delete of
  the progress rows of that id, each once, and then refreshes both caches: \<open>users\<close>
  becomes the rows of the reply and \<open>progressData\<close> the normalized rows of the reply, and
  a cache whose read fails keeps its value. \<open>currentUser\<close> plays no part in it.
  Self-deletion is prevented in the presentation layer only: the admin dashboard renders
  the delete button of a row exactly when the id of the row is not the id of the current
  user.
\<close>

theorem deleteUser_has_no_guard:
  "fst (deleteUser userId pe ge ur pr s)
     = ProfilesDeleteEqId userId
       # (case pe of Some m \<Rightarrow> [ConsoleError ''Error deleting profile:'' m] | None \<Rightarrow> [])
       @ ProgressDeleteEqUserId userId
       # (case ge of Some m \<Rightarrow> [ConsoleError ''Error deleting progress:'' m] | None \<Rightarrow> [])
       @ ProfilesSelectAll
       # (case ur of Inl e \<Rightarrow> [ConsoleError ''Error fetching users:'' e] | Inr us \<Rightarrow> [])
       @ ProgressSelectAll
       # (case pr of Inl e \<Rightarrow> [ConsoleError ''Error fetching progress data:'' e] | Inr rows \<Rightarrow> []) \<and>
   users (snd (snd (deleteUser userId pe ge ur pr s)))
     = (case ur of Inl e \<Rightarrow> users s | Inr us \<Rightarrow> us) \<and>
   progressData (snd (snd (deleteUser userId pe ge ur pr s)))
     = (case pr of
          Inl e \<Rightarrow> progressData s
        | Inr rows \<Rightarrow>
            (case snd (transformProgress (sharedObjects s) rows) of
               None \<Rightarrow> progressData s
             | Some index \<Rightarrow> index)) \<and>
   ((\<forall>r\<in>set records. \<not> inheritedKey (sharedObjects s) (row_operation r)) \<longrightarrow>
      (\<exists>index. transformProgress (sharedObjects s) records = (sharedObjects s, Some index) \<and>
         snd (deleteUser userId pe ge (Inr profiles) (Inr records) s)
           = (Fulfilled, s\<lparr>users := profiles, progressData := index\<rparr>))) \<and>
   deleteUser userId pe ge ur pr (s\<lparr>currentUser := cu\<rparr>)
     = (fst (deleteUser userId pe ge ur pr s), fst (snd (deleteUser userId pe ge ur pr s)),
        (snd (snd (deleteUser userId pe ge ur pr s)))\<lparr>currentUser := cu\<rparr>) \<and>
   (currentUser s = Some current \<longrightarrow>
      deleteButtonShown s user = (id_user user \<noteq> id_user current)) \<and>
   (currentUser s = None \<longrightarrow> deleteButtonShown s user)"
proof -
  have r: "(\<forall>r\<in>set records. \<not> inheritedKey (sharedObjects s) (row_operation r)) \<longrightarrow>
      (\<exists>index. transformProgress (sharedObjects s) records = (sharedObjects s, Some index) \<and>
         snd (deleteUser userId pe ge (Inr profiles) (Inr records) s)
           = (Fulfilled, s\<lparr>users := profiles, progressData := index\<rparr>))"
    using deleteUser_refreshed[of records s userId pe ge profiles] by blast
  have g: "currentUser s = Some current \<longrightarrow>
      deleteButtonShown s user = (id_user user \<noteq> id_user current)"
    "currentUser s = None \<longrightarrow> deleteButtonShown s user"
    by (simp_all add: deleteButtonShown_def)
  show ?thesis
    using r g deleteUser_effects[of userId pe ge ur pr s] deleteUser_users[of userId pe ge ur pr s]
      deleteUser_progressData[of userId pe ge ur pr s]
      deleteUser_ignores_currentUser[where userId = userId and pe = pe and ge = ge and ur = ur and pr = pr
        and s = s and cu = cu]
    by blast
qed

theorem deleteUser_has_no_guard_witness:
  "currentUser example_admin_state = Some example_admin \<and>
   fst (deleteUser 1 None None (Inr [example_student]) (Inr [row_of 5 ''addition'' 1 80])
          example_admin_state)
     = [ProfilesDeleteEqId 1, ProgressDeleteEqUserId 1,
        ProfilesSelectAll, ProgressSelectAll] \<and>
   users example_admin_state = [example_admin, example_student] \<and>
   (\<exists>index.
      snd (deleteUser 1 None None (Inr [example_student]) (Inr [row_of 5 ''addition'' 1 80])
             example_admin_state)
        = (Fulfilled, example_admin_state\<lparr>users := [example_student], progressData := index\<rparr>)) \<and>
   \<not> deleteButtonShown example_admin_state example_admin \<and>
   \<not> deleteButtonShown example_admin_state (example_admin\<lparr>name := ''Ada L.''\<rparr>) \<and>
   deleteButtonShown example_admin_state example_student"
proof -
  have h: "currentUser example_admin_state = Some example_admin"
    "users example_admin_state = [example_admin, example_student]"
    by (simp_all add: example_admin_state_def)
  have p: "\<forall>r\<in>set [row_of 5 ''addition'' 1 80].
             \<not> inheritedKey (sharedObjects example_admin_state) (row_operation r)"
    by (simp add: inheritedKey_def builtinFunctionNames_def initialSharedObjects_def row_of_def
        example_admin_state_def)
  note t = deleteUser_has_no_guard
      [where userId = 1 and pe = None and ge = None and ur = "Inr [example_student]"
         and pr = "Inr [row_of 5 ''addition'' 1 80]" and s = example_admin_state
         and records = "[row_of 5 ''addition'' 1 80]" and profiles = "[example_student]"
         and current = example_admin]
  have e: "fst (deleteUser 1 None None (Inr [example_student])
                  (Inr [row_of 5 ''addition'' 1 80]) example_admin_state)
     = [ProfilesDeleteEqId 1, ProgressDeleteEqUserId 1,
        ProfilesSelectAll, ProgressSelectAll]"
    using t[of _ example_admin] by simp
  have r: "\<exists>index.
      snd (deleteUser 1 None None (Inr [example_student]) (Inr [row_of 5 ''addition'' 1 80])
             example_admin_state)
        = (Fulfilled, example_admin_state\<lparr>users := [example_student], progressData := index\<rparr>)"
    using t[of _ example_admin] p by blast
  have g1: "\<not> deleteButtonShown example_admin_state example_admin"
    using t[of _ example_admin] h by simp
  have g2: "\<not> deleteButtonShown example_admin_state (example_admin\<lparr>name := ''Ada L.''\<rparr>)"
    using t[of _ "example_admin\<lparr>name := ''Ada L.''\<rparr>"] h by simp
  have g3: "deleteButtonShown example_admin_state example_student"
    using t[of _ example_student] h by (simp add: example_admin_def example_student_def)
  from h e r g1 g2 g3 show ?thesis by blast
qed

text \<open>
  The claim C5 fails on the code: with the admin (the user 1) signed in, \<open>deleteUser\<close> called
  with that id issues both deletes and refreshes the caches, here with a reply that no
  longer holds the admin's profile.
\<close>

theorem deleteUser_current_admin_counterexample:
  "currentUser example_admin_state = Some example_admin \<and>
   role example_admin = Admin \<and>
   id_user example_admin = 1 \<and>
   fst (deleteUser 1 None None (Inr [example_student]) (Inr []) example_admin_state)
     = [ProfilesDeleteEqId 1, ProgressDeleteEqUserId 1,
        ProfilesSelectAll, ProgressSelectAll] \<and>
   fst (snd (deleteUser 1 None None (Inr [example_student]) (Inr [])
               example_admin_state)) = Fulfilled \<and>
   users (snd (snd (deleteUser 1 None None (Inr [example_student]) (Inr [])
                      example_admin_state))) = [example_student]"
  by (simp add: deleteUser_def fetchAllUsers_def fetchAllProgressData_def transformProgress_def
      Let_def example_admin_state_def example_admin_def)

text \<open>
  C8, as the code has it. When the sign-up of a parent with a child succeeds and the
  update that links the child fails, \<open>signUp\<close> issues each of the two requests once and
  returns the failure result whose message is \<^verbatim>\<open>User created, but failed to link child: \<close>
  followed by the error: a result of its own, not the successful one. \<open>deleteUser\<close>
  returns no value. When the delete of the profile succeeds and the delete of the
  progress rows fails, it logs the error, issues each delete once, and refreshes both
  caches from the replies of the store; its promise completes as the refresh does,
  whatever the deletes replied, and is fulfilled when the refresh does not throw.
\<close>

theorem partial_failure_reporting:
  "(ud_role data = Parent \<and> ud_childId data = Some child \<and> child \<noteq> [] \<longrightarrow>
      signUp data (Inr (Some uid)) (Some msg) s
        = ([AuthSignUp (ud_email data) (ud_password data) (ud_name data) (ud_role data),
            ProfilesUpdateChildId child uid],
           \<lparr>success = False, message = ''User created, but failed to link child: '' @ msg\<rparr>,
           s) \<and>
      fst (snd (signUp data (Inr (Some uid)) (Some msg) s)) \<noteq> signUpSuccessful) \<and>
   fst (deleteUser userId None (Some msg) ur pr s)
     = [ProfilesDeleteEqId userId, ProgressDeleteEqUserId userId,
        ConsoleError ''Error deleting progress:'' msg]
       @ ProfilesSelectAll
       # (case ur of Inl e \<Rightarrow> [ConsoleError ''Error fetching users:'' e] | Inr us \<Rightarrow> [])
       @ ProgressSelectAll
       # (case pr of Inl e \<Rightarrow> [ConsoleError ''Error fetching progress data:'' e] | Inr rows \<Rightarrow> []) \<and>
   fst (snd (deleteUser userId pe ge ur pr s))
     = (case pr of
          Inl e \<Rightarrow> Fulfilled
        | Inr rows \<Rightarrow>
            (case snd (transformProgress (sharedObjects s) rows) of
               None \<Rightarrow> Rejected
             | Some index \<Rightarrow> Fulfilled)) \<and>
   users (snd (snd (deleteUser userId None (Some msg) ur pr s)))
     = (case ur of Inl e \<Rightarrow> users s | Inr us \<Rightarrow> us) \<and>
   progressData (snd (snd (deleteUser userId None (Some msg) ur pr s)))
     = (case pr of
          Inl e \<Rightarrow> progressData s
        | Inr rows \<Rightarrow>
            (case snd (transformProgress (sharedObjects s) rows) of
               None \<Rightarrow> progressData s
             | Some index \<Rightarrow> index)) \<and>
   ((\<forall>r\<in>set records. \<not> inheritedKey (sharedObjects s) (row_operation r)) \<longrightarrow>
      (\<exists>index. transformProgress (sharedObjects s) records = (sharedObjects s, Some index) \<and>
         snd (deleteUser userId None (Some msg) (Inr profiles) (Inr records) s)
           = (Fulfilled, s\<lparr>users := profiles, progressData := index\<rparr>)))"
proof -
  have a: "ud_role data = Parent \<and> ud_childId data = Some child \<and> child \<noteq> [] \<longrightarrow>
      signUp data (Inr (Some uid)) (Some msg) s
        = ([AuthSignUp (ud_email data) (ud_password data) (ud_name data) (ud_role data),
            ProfilesUpdateChildId child uid],
           \<lparr>success = False, message = ''User created, but failed to link child: '' @ msg\<rparr>,
           s) \<and>
      fst (snd (signUp data (Inr (Some uid)) (Some msg) s)) \<noteq> signUpSuccessful"
    by (simp add: signUp_def Let_def signUpSuccessful_def)
  have b: "fst (deleteUser userId None (Some msg) ur pr s)
     = [ProfilesDeleteEqId userId, ProgressDeleteEqUserId userId,
        ConsoleError ''Error deleting progress:'' msg]
       @ ProfilesSelectAll
       # (case ur of Inl e \<Rightarrow> [ConsoleError ''Error fetching users:'' e] | Inr us \<Rightarrow> [])
       @ ProgressSelectAll
       # (case pr of Inl e \<Rightarrow> [ConsoleError ''Error fetching progress data:'' e] | Inr rows \<Rightarrow> [])"
    using deleteUser_effects[of userId None "Some msg" ur pr s] by simp
  have r: "(\<forall>r\<in>set records. \<not> inheritedKey (sharedObjects s) (row_operation r)) \<longrightarrow>
      (\<exists>index. transformProgress (sharedObjects s) records = (sharedObjects s, Some index) \<and>
         snd (deleteUser userId None (Some msg) (Inr profiles) (Inr records) s)
           = (Fulfilled, s\<lparr>users := profiles, progressData := index\<rparr>))"
    using deleteUser_refreshed[of records s userId None "Some msg" profiles] by blast
  show ?thesis
    using a b r deleteUser_completion[of userId pe ge ur pr s]
      deleteUser_users[of userId None "Some msg" ur pr s]
      deleteUser_progressData[of userId None "Some msg" ur pr s]
    by blast
qed

theorem partial_failure_reporting_witness:
  "signUp example_parent_data (Inr (Some 9)) (Some ''no such student'') initialAppState
     = ([AuthSignUp ''pat@example.org'' (Some ''secret'') ''Pat'' Parent,
         ProfilesUpdateChildId ''00000000-0000-0000-0000-000000000005'' 9],
        \<lparr>success = False,
         message = ''User created, but failed to link child: no such student''\<rparr>,
        initialAppState) \<and>
   fst (deleteUser 5 None (Some ''no such student'') (Inr [example_admin])
          (Inr [row_of 5 ''addition'' 1 80]) example_admin_state)
     = [ProfilesDeleteEqId 5, ProgressDeleteEqUserId 5,
        ConsoleError ''Error deleting progress:'' ''no such student'',
        ProfilesSelectAll, ProgressSelectAll] \<and>
   (\<exists>index.
      snd (deleteUser 5 None (Some ''no such student'') (Inr [example_admin])
             (Inr [row_of 5 ''addition'' 1 80]) example_admin_state)
        = (Fulfilled, example_admin_state\<lparr>users := [example_admin], progressData := index\<rparr>))"
proof -
  have h: "ud_role example_parent_data = Parent \<and>
           ud_childId example_parent_data = Some ''00000000-0000-0000-0000-000000000005'' \<and>
           ''00000000-0000-0000-0000-000000000005'' \<noteq> []"
    by (simp add: example_parent_data_def)
  have p: "\<forall>r\<in>set [row_of 5 ''addition'' 1 80].
             \<not> inheritedKey (sharedObjects example_admin_state) (row_operation r)"
    by (simp add: inheritedKey_def builtinFunctionNames_def initialSharedObjects_def row_of_def
        example_admin_state_def)
  have a: "signUp example_parent_data (Inr (Some 9)) (Some ''no such student'')
             initialAppState
     = ([AuthSignUp ''pat@example.org'' (Some ''secret'') ''Pat'' Parent,
         ProfilesUpdateChildId ''00000000-0000-0000-0000-000000000005'' 9],
        \<lparr>success = False,
         message = ''User created, but failed to link child: no such student''\<rparr>,
        initialAppState)"
    using h partial_failure_reporting
      [where data = example_parent_data and child = "''00000000-0000-0000-0000-000000000005''" and uid = 9
         and msg = "''no such student''" and s = initialAppState]
    by (simp add: example_parent_data_def)
  note t = partial_failure_reporting
      [where msg = "''no such student''" and s = example_admin_state and userId = 5
         and ur = "Inr [example_admin]" and pr = "Inr [row_of 5 ''addition'' 1 80]"
         and records = "[row_of 5 ''addition'' 1 80]" and profiles = "[example_admin]"]
  have b: "fst (deleteUser 5 None (Some ''no such student'') (Inr [example_admin])
          (Inr [row_of 5 ''addition'' 1 80]) example_admin_state)
     = [ProfilesDeleteEqId 5, ProgressDeleteEqUserId 5,
        ConsoleError ''Error deleting progress:'' ''no such student'',
        ProfilesSelectAll, ProgressSelectAll]"
    using t by simp
  have c: "\<exists>index.
      snd (deleteUser 5 None (Some ''no such student'') (Inr [example_admin])
             (Inr [row_of 5 ''addition'' 1 80]) example_admin_state)
        = (Fulfilled, example_admin_state\<lparr>users := [example_admin], progressData := index\<rparr>)"
    using t p by blast
  from a b c show ?thesis by blast
qed

text \<open>
  The claim C8 fails on the code for \<open>deleteUser\<close>. The delete of the profile of
  the student (the user 5) succeeds and the delete of the progress rows fails, so that the store
  still returns a row of the student: the failure is logged, the
  promise is fulfilled as it is when both deletes succeed, and the progress cache holds
  the row of the deleted profile.
\<close>

theorem deleteUser_partial_failure_counterexample:
  "fst (deleteUser 5 None (Some ''permission denied'') (Inr [example_admin])
          (Inr [row_of 5 ''addition'' 1 80]) example_admin_state)
     = [ProfilesDeleteEqId 5, ProgressDeleteEqUserId 5,
        ConsoleError ''Error deleting progress:'' ''permission denied'',
        ProfilesSelectAll, ProgressSelectAll] \<and>
   fst (snd (deleteUser 5 None (Some ''permission denied'') (Inr [example_admin])
               (Inr [row_of 5 ''addition'' 1 80]) example_admin_state)) = Fulfilled \<and>
   fst (snd (deleteUser 5 None None (Inr [example_admin]) (Inr [])
               example_admin_state)) = Fulfilled \<and>
   users (snd (snd (deleteUser 5 None (Some ''permission denied'') (Inr [example_admin])
                      (Inr [row_of 5 ''addition'' 1 80]) example_admin_state)))
     = [example_admin] \<and>
   lookupStage
     (progressData (snd (snd (deleteUser 5 None (Some ''permission denied'')
                                (Inr [example_admin]) (Inr [row_of 5 ''addition'' 1 80])
                                example_admin_state))))
     5 ''addition'' (stageKey 1) = Some 80"
  by (simp add: deleteUser_def fetchAllUsers_def fetchAllProgressData_def transformProgress_def
      transformStep_def getMember_def builtinFunctionNames_def initialSharedObjects_def row_of_def
      stageKey_1 lookupStage_def lookupOperation_def example_admin_state_def Let_def)



section \<open>Properties of the quiz screen\<close>

lemma foldl_timeTaken:
  "foldl (\<lambda>sum r. sum + timeTaken r) acc rs = acc + sum_list (map timeTaken rs)"
  by (induction rs arbitrary: acc) simp_all

lemma handleAnswerSubmit_accepts:
  assumes "st_question s = Some q" "\<not> st_isAnswered s"
  shows "\<exists>s1. handleAnswerSubmit ctx fq answerStr now s = (Some (nextQuestionOfRender ctx fq s), s1) \<and>
           (\<exists>r. st_results s1 = st_results s @ [r]) \<and>
           st_questionIndex s1 = st_questionIndex s"
  using assms by (simp add: handleAnswerSubmit_def Let_def)

lemma answer_then_next:
  assumes "st_question s = Some q" "\<not> st_isAnswered s" "st_questionIndex s < TOTAL_QUESTIONS"
  shows "\<exists>s2 r. answerQuestions (Some qs) fq (a # rest) s = answerQuestions (Some qs) fq rest s2 \<and>
           st_results s2 = st_results s @ [r] \<and>
           st_questionIndex s2 = st_questionIndex s + 1 \<and>
           st_question s2 \<noteq> None \<and> \<not> st_isAnswered s2"
proof -
  let ?cl = "nextQuestionOfRender (Some qs) fq s"
  from handleAnswerSubmit_accepts[OF assms(1,2), of "Some qs" fq "sub_answer a" "sub_time a"]
  obtain s1 r where h: "handleAnswerSubmit (Some qs) fq (sub_answer a) (sub_time a) s = (Some ?cl, s1)"
    and s1: "st_results s1 = st_results s @ [r]" "st_questionIndex s1 = st_questionIndex s"
    by blast
  define s2 where "s2 = snd (nextQuestion ?cl (sub_next a) (sub_rnd1 a) (sub_rnd2 a) s1)"
  have n: "nextQuestion ?cl (sub_next a) (sub_rnd1 a) (sub_rnd2 a) s1 = (None, s2)"
    using assms(3) by (simp add: s2_def nextQuestion_def nextQuestionOfRender_def)
  have p: "st_results s2 = st_results s @ [r]" "st_questionIndex s2 = st_questionIndex s + 1"
    "st_question s2 \<noteq> None" "\<not> st_isAnswered s2"
    using assms(3) s1 by (simp_all add: s2_def nextQuestion_def nextQuestionOfRender_def)
  have "answerQuestions (Some qs) fq (a # rest) s = answerQuestions (Some qs) fq rest s2"
    by (simp add: h n)
  with p show ?thesis by blast
qed

lemma answer_then_finish:
  assumes "st_question s = Some q" "\<not> st_isAnswered s" "TOTAL_QUESTIONS \<le> st_questionIndex s"
  shows "\<exists>s' r. answerQuestions (Some qs) fq (a # rest) s =
           (Some \<lparr>settings = qs, results = st_results s,
                   score = real (length (filter isCorrect (st_results s))) / real TOTAL_QUESTIONS * 100,
                   totalTime = foldl (\<lambda>sum r. sum + timeTaken r) 0 (st_results s)\<rparr>, s') \<and>
           st_results s' = st_results s @ [r]"
proof -
  let ?cl = "nextQuestionOfRender (Some qs) fq s"
  from handleAnswerSubmit_accepts[OF assms(1,2), of "Some qs" fq "sub_answer a" "sub_time a"]
  obtain s1 r where h: "handleAnswerSubmit (Some qs) fq (sub_answer a) (sub_time a) s = (Some ?cl, s1)"
    and s1: "st_results s1 = st_results s @ [r]"
    by blast
  have n: "nextQuestion ?cl (sub_next a) (sub_rnd1 a) (sub_rnd2 a) s1 =
           (Some \<lparr>settings = qs, results = st_results s,
                   score = real (length (filter isCorrect (st_results s))) / real TOTAL_QUESTIONS * 100,
                   totalTime = foldl (\<lambda>sum r. sum + timeTaken r) 0 (st_results s)\<rparr>, s1)"
    using assms(3) by (simp add: nextQuestion_def nextQuestionOfRender_def Let_def)
  have "answerQuestions (Some qs) fq (a # rest) s =
           (Some \<lparr>settings = qs, results = st_results s,
                   score = real (length (filter isCorrect (st_results s))) / real TOTAL_QUESTIONS * 100,
                   totalTime = foldl (\<lambda>sum r. sum + timeTaken r) 0 (st_results s)\<rparr>, s1)"
    by (simp add: h n)
  with s1 show ?thesis by blast
qed

lemma answerQuestions_session:
  assumes "st_question s \<noteq> None" "\<not> st_isAnswered s"
    "st_questionIndex s = length (st_results s) + 1"
    "length (st_results s) + length subs = 10" "subs \<noteq> []"
  shows "\<exists>summary s'. answerQuestions (Some qs) fq subs s = (Some summary, s') \<and>
           length (st_results s') = 10 \<and>
           results summary = butlast (st_results s') \<and>
           settings summary = qs \<and>
           score summary = real (length (filter isCorrect (results summary))) / 10 * 100 \<and>
           totalTime summary = sum_list (map timeTaken (results summary))"
  using assms
proof (induction subs arbitrary: s)
  case Nil
  then show ?case by simp
next
  case (Cons a rest)
  from Cons.prems(1) obtain q where q: "st_question s = Some q" by auto
  show ?case
  proof (cases "rest = []")
    case True
    with Cons.prems(3,4) have "TOTAL_QUESTIONS \<le> st_questionIndex s"
      by (simp add: TOTAL_QUESTIONS_def)
    from answer_then_finish[OF q Cons.prems(2) this, of qs fq a rest]
    obtain s' r where f: "answerQuestions (Some qs) fq (a # rest) s =
           (Some \<lparr>settings = qs, results = st_results s,
                   score = real (length (filter isCorrect (st_results s))) / real TOTAL_QUESTIONS * 100,
                   totalTime = foldl (\<lambda>sum r. sum + timeTaken r) 0 (st_results s)\<rparr>, s')"
      "st_results s' = st_results s @ [r]"
      by blast
    have "length (st_results s') = 10" using f(2) Cons.prems(4) True by simp
    then show ?thesis using f
      by (simp add: TOTAL_QUESTIONS_def foldl_timeTaken)
  next
    case False
    with Cons.prems(3,4) have "st_questionIndex s < TOTAL_QUESTIONS"
      by (cases rest) (simp_all add: TOTAL_QUESTIONS_def)
    from answer_then_next[OF q Cons.prems(2) this, of qs fq a rest]
    obtain s2 r where n: "answerQuestions (Some qs) fq (a # rest) s = answerQuestions (Some qs) fq rest s2"
      "st_results s2 = st_results s @ [r]" "st_questionIndex s2 = st_questionIndex s + 1"
      "st_question s2 \<noteq> None" "\<not> st_isAnswered s2"
      by blast
    have i: "st_questionIndex s2 = length (st_results s2) + 1"
      using n(2,3) Cons.prems(3) by simp
    have l: "length (st_results s2) + length rest = 10"
      using n(2) Cons.prems(4) by simp
    from Cons.IH[OF n(4) n(5) i l False] show ?thesis
      unfolding n(1) .
  qed
qed

lemma mount_state:
  "\<exists>q. snd (nextQuestion (nextQuestionOfRender (Some qs) fq (initialQuizScreenState t)) t r1 r2
            (initialQuizScreenState t))
     = \<lparr>st_question = Some q, st_questionIndex = 1, st_userAnswer = [], st_results = [],
        st_isAnswered = False, st_feedback = [], st_startTime = t\<rparr>"
  by (simp add: nextQuestion_def nextQuestionOfRender_def initialQuizScreenState_def
      TOTAL_QUESTIONS_def)

text \<open>
  C1, on the code. A session in which ten questions each receive one recorded result ends
  with \<open>nextQuestion\<close> handing a summary to \<^verbatim>\<open>finishQuiz\<close>; but the \<open>nextQuestion\<close>
  scheduled by the tenth submission is the one of the render before that submission, and
  its \<^verbatim>\<open>results\<close> hold the first nine results only. The summary therefore has nine
  results, its score and total time are computed from these nine, and the score is at
  most 90, whatever the answers.
\<close>

theorem runQuiz_summary_omits_last_answer:
  assumes "length subs = 10"
  shows "\<exists>summary s'. runQuiz (Some qs) fq t r1 r2 subs = (Some summary, s') \<and>
           length (st_results s') = 10 \<and>
           results summary = butlast (st_results s') \<and>
           length (results summary) = 9 \<and>
           score summary = real (length (filter isCorrect (results summary))) / 10 * 100 \<and>
           score summary \<le> 90 \<and>
           totalTime summary = sum_list (map timeTaken (results summary))"
proof -
  let ?s0 = "initialQuizScreenState t"
  let ?s1 = "snd (nextQuestion (nextQuestionOfRender (Some qs) fq ?s0) t r1 r2 ?s0)"
  obtain q where s1: "?s1 = \<lparr>st_question = Some q, st_questionIndex = 1, st_userAnswer = [],
      st_results = [], st_isAnswered = False, st_feedback = [], st_startTime = t\<rparr>"
    using mount_state[of qs fq t r1 r2] by blast
  have run: "runQuiz (Some qs) fq t r1 r2 subs = answerQuestions (Some qs) fq subs ?s1"
    by (simp add: runQuiz_def Let_def split_def)
  have p: "st_question ?s1 \<noteq> None" "\<not> st_isAnswered ?s1"
    "st_questionIndex ?s1 = length (st_results ?s1) + 1"
    "length (st_results ?s1) + length subs = 10" "subs \<noteq> []"
    using assms by (auto simp: s1)
  from answerQuestions_session[OF p, of qs fq]
  obtain summary s' where r: "answerQuestions (Some qs) fq subs ?s1 = (Some summary, s')"
    "length (st_results s') = 10" "results summary = butlast (st_results s')"
    "score summary = real (length (filter isCorrect (results summary))) / 10 * 100"
    "totalTime summary = sum_list (map timeTaken (results summary))"
    by blast
  have len: "length (results summary) = 9" using r(2,3) by simp
  have "length (filter isCorrect (results summary)) \<le> 9"
    using length_filter_le[of isCorrect "results summary"] len by simp
  then have "score summary \<le> 90" using r(4) by simp
  with r len run show ?thesis by simp
qed

lemma ten_correct_run:
  "fst (runQuiz (Some example_settings) (Some example_student) 0 half half ten_correct_submissions)
     = Some \<lparr>settings = example_settings,
             results = replicate 9 \<lparr>question = \<lparr>text = ''3 + 3 = ?'', answer = 6\<rparr>,
                                    userAnswer = Num 6, isCorrect = True, timeTaken = 2\<rparr>,
             score = 90, totalTime = 18\<rparr> \<and>
   st_results (snd (runQuiz (Some example_settings) (Some example_student) 0 half half ten_correct_submissions))
     = replicate 10 \<lparr>question = \<lparr>text = ''3 + 3 = ?'', answer = 6\<rparr>,
                     userAnswer = Num 6, isCorrect = True, timeTaken = 2\<rparr>"
  by (simp add: ten_correct_submissions_def runQuiz_def initialQuizScreenState_def
      nextQuestionOfRender_def nextQuestion_def handleAnswerSubmit_def TOTAL_QUESTIONS_def
      example_settings_def generateQuestion_example parseInt_6 correct_submission_def Let_def
      numeral_eq_Suc)

theorem runQuiz_summary_omits_last_answer_witness:
  "length ten_correct_submissions = 10 \<and>
   list_all isCorrect
     (st_results (snd (runQuiz (Some example_settings) (Some example_student) 0 half half ten_correct_submissions))) \<and>
   length (st_results (snd (runQuiz (Some example_settings) (Some example_student) 0 half half ten_correct_submissions)))
     = 10 \<and>
   (\<exists>summary. fst (runQuiz (Some example_settings) (Some example_student) 0 half half ten_correct_submissions)
        = Some summary \<and>
      length (results summary) = 9 \<and> score summary = 90 \<and> totalTime summary = 18)"
proof -
  have h: "length ten_correct_submissions = 10"
    by (simp add: ten_correct_submissions_def)
  from runQuiz_summary_omits_last_answer[OF h, of example_settings "Some example_student" 0 half half]
  obtain summary s' where
    r: "runQuiz (Some example_settings) (Some example_student) 0 half half ten_correct_submissions = (Some summary, s')"
      "length (results summary) = 9"
    by blast
  have c: "fst (runQuiz (Some example_settings) (Some example_student) 0 half half ten_correct_submissions)
     = Some \<lparr>settings = example_settings,
             results = replicate 9 \<lparr>question = \<lparr>text = ''3 + 3 = ?'', answer = 6\<rparr>,
                                    userAnswer = Num 6, isCorrect = True, timeTaken = 2\<rparr>,
             score = 90, totalTime = 18\<rparr>"
    "st_results (snd (runQuiz (Some example_settings) (Some example_student) 0 half half ten_correct_submissions))
     = replicate 10 \<lparr>question = \<lparr>text = ''3 + 3 = ?'', answer = 6\<rparr>,
                     userAnswer = Num 6, isCorrect = True, timeTaken = 2\<rparr>"
    using ten_correct_run by simp_all
  have s: "score summary = 90" "totalTime summary = 18" using r(1) c(1) by auto
  have "list_all isCorrect
     (st_results (snd (runQuiz (Some example_settings) (Some example_student) 0 half half ten_correct_submissions)))"
    unfolding c(2) by (simp add: list_all_length)
  moreover have "length (st_results (snd (runQuiz (Some example_settings) (Some example_student) 0 half half
      ten_correct_submissions))) = 10"
    unfolding c(2) by simp
  ultimately show ?thesis using h r s by simp
qed

text \<open>
  C4, as the code has it. \<open>nextQuestion\<close> presents a question and stores the
  \<^verbatim>\<open>Date.now()\<close> of that moment, \<open>shown\<close>, as \<^verbatim>\<open>startTime\<close>. The submission of an
  answer to that question at the time \<open>now\<close>, typed or from the timer and whatever was
  typed before it, appends one result with that question whose \<open>timeTaken\<close> is the time
  elapsed since the question was presented, \<open>(now - shown) / 1000\<close> seconds, with no upper
  bound applied; the timer's submission records the answer \<^verbatim>\<open>null\<close> as incorrect.
\<close>

theorem timeTaken_is_elapsed_since_shown:
  assumes "cl_quizSettings cl = Some qs" "cl_questionIndex cl < TOTAL_QUESTIONS"
  shows "snd (nextQuestion cl shown rnd1 rnd2 s)
           = s\<lparr>st_isAnswered := False, st_feedback := [], st_userAnswer := [],
               st_question := Some (generateQuestion (operation qs) (stage qs) rnd1 rnd2),
               st_questionIndex := st_questionIndex s + 1, st_startTime := shown\<rparr> \<and>
         st_results
           (snd (handleAnswerSubmit qctx fctx answerStr now
                   ((snd (nextQuestion cl shown rnd1 rnd2 s))\<lparr>st_userAnswer := typed\<rparr>)))
           = st_results s @
             [\<lparr>question = generateQuestion (operation qs) (stage qs) rnd1 rnd2,
               userAnswer = (if answerStr = [] then Null else parseInt answerStr),
               isCorrect = ((if answerStr = [] then Null else parseInt answerStr)
                              = Num (answer (generateQuestion (operation qs) (stage qs) rnd1 rnd2))),
               timeTaken = real_of_int (now - shown) / 1000\<rparr>] \<and>
         st_results
           (snd (handleTimeUp qctx fctx now
                   ((snd (nextQuestion cl shown rnd1 rnd2 s))\<lparr>st_userAnswer := typed\<rparr>)))
           = st_results s @
             [\<lparr>question = generateQuestion (operation qs) (stage qs) rnd1 rnd2,
               userAnswer = Null, isCorrect = False,
               timeTaken = real_of_int (now - shown) / 1000\<rparr>]"
  using assms by (simp add: nextQuestion_def handleAnswerSubmit_def handleTimeUp_def Let_def)

theorem timeTaken_is_elapsed_since_shown_witness:
  "st_results
     (snd (handleAnswerSubmit (Some example_settings) (Some example_student) ''6'' 2500
             ((snd (nextQuestion
                      (nextQuestionOfRender (Some example_settings) (Some example_student)
                         (initialQuizScreenState 0))
                      0 half half (initialQuizScreenState 0)))\<lparr>st_userAnswer := ''6''\<rparr>)))
     = [\<lparr>question = \<lparr>text = ''3 + 3 = ?'', answer = 6\<rparr>, userAnswer = Num 6, isCorrect = True,
         timeTaken = 5/2\<rparr>] \<and>
   (5/2 :: real) \<le> real_of_int (timer example_settings)"
proof -
  let ?cl = "nextQuestionOfRender (Some example_settings) (Some example_student)
               (initialQuizScreenState 0)"
  have h: "cl_quizSettings ?cl = Some example_settings" "cl_questionIndex ?cl < TOTAL_QUESTIONS"
    by (simp_all add: nextQuestionOfRender_def initialQuizScreenState_def TOTAL_QUESTIONS_def)
  have t: "(5/2 :: real) \<le> real_of_int (timer example_settings)"
    by (simp add: example_settings_def)
  have q: "generateQuestion (operation example_settings) (stage example_settings) half half
             = \<lparr>text = ''3 + 3 = ?'', answer = 6\<rparr>"
    by (simp add: example_settings_def generateQuestion_example)
  have r0: "st_results (initialQuizScreenState 0) = []"
    by (simp add: initialQuizScreenState_def)
  note e = timeTaken_is_elapsed_since_shown[OF h, of 0 half half "initialQuizScreenState 0"
      "Some example_settings" "Some example_student" "''6''" 2500 "''6''"]
  from e[THEN conjunct2, THEN conjunct1]
  have "st_results
     (snd (handleAnswerSubmit (Some example_settings) (Some example_student) ''6'' 2500
             ((snd (nextQuestion ?cl 0 half half (initialQuizScreenState 0)))
                \<lparr>st_userAnswer := ''6''\<rparr>)))
     = [\<lparr>question = \<lparr>text = ''3 + 3 = ?'', answer = 6\<rparr>, userAnswer = Num 6, isCorrect = True,
         timeTaken = 5/2\<rparr>]"
    by (simp add: q parseInt_6 r0)
  with t show ?thesis by blast
qed

text \<open>
  The claim C4 fails on the code: with a timer of 3 seconds and the question presented at
  time 0, the timer's submission at 3012 milliseconds records \<open>timeTaken = 3.012\<close>, more
  than the timer.
\<close>

theorem timeTaken_exceeds_timer_counterexample:
  "timer example_settings = 3 \<and>
   example_first_question
     = snd (nextQuestion
              (nextQuestionOfRender (Some example_settings) (Some example_student)
                 (initialQuizScreenState 0))
              0 half half (initialQuizScreenState 0)) \<and>
   st_startTime example_first_question = 0 \<and>
   map timeTaken
     (st_results (snd (handleTimeUp (Some example_settings) (Some example_student) 3012
                         example_first_question)))
     = [3012 / 1000] \<and>
   \<not> (3012 / 1000 \<le> real_of_int (timer example_settings))"
proof -
  have "example_first_question
     = snd (nextQuestion
              (nextQuestionOfRender (Some example_settings) (Some example_student)
                 (initialQuizScreenState 0))
              0 half half (initialQuizScreenState 0))"
    by (simp only: example_first_question_def)
  moreover have "timer example_settings = 3" "st_startTime example_first_question = 0"
    "map timeTaken
     (st_results (snd (handleTimeUp (Some example_settings) (Some example_student) 3012
                         example_first_question)))
     = [3012 / 1000]"
    "\<not> (3012 / 1000 \<le> real_of_int (timer example_settings))"
    by (simp_all add: example_first_question_eq handleTimeUp_def handleAnswerSubmit_def Let_def
        example_settings_def)
  ultimately show ?thesis by blast
qed

end
